theory Spec2Isabelle
  imports Complex_Main
begin

text \<open>
  A shallow embedding of the GoodGuyBot repository: the quota ledger and the job
  command of \<^verbatim>\<open>cogs/parlay.py\<close>, the retrying worker call, the tolerant JSON
  extraction, the schema validation and the salvage path of
  \<^verbatim>\<open>utils/parlay_research.py\<close>, and \<^verbatim>\<open>normalize_date\<close> of
  \<^verbatim>\<open>utils/sportsdata.py\<close>.

  Conventions. A Python \<^verbatim>\<open>str\<close> is the \<^typ>\<open>string\<close> of the bytes of its UTF-8
  encoding: an ASCII character is one \<^typ>\<open>char\<close>, any other character two to four. A leading
  underscore of a source name is dropped, since an Isabelle name cannot start with one.
  Everything the code reads from outside (the clock, the random job id, the replies of the
  research API, whether the deadline fired, how often the heartbeat ticked) is an argument
  of the function that reads it. Console logging is left out.
\<close>

section \<open>The quota ledger: table \<^verbatim>\<open>parlay_usage\<close> of cogs/parlay.py\<close>

text \<open>
  The column \<^verbatim>\<open>status\<close> is constrained by
  \<^verbatim>\<open>CHECK(status IN ('pending','success','failed'))\<close>; \<^verbatim>\<open>job_id\<close> is the primary key.
  The table is the list of its rows.
\<close>

datatype job_status = Pending | Success | Failed

record usage_row =
  job_id :: string
  user_id :: int
  et_date :: string
  status :: job_status

type_synonym ledger = "usage_row list"

definition DAILY_MAX_PARLAYS :: int where
  "DAILY_MAX_PARLAYS = 3"

definition HEARTBEAT_SECONDS :: int where
  "HEARTBEAT_SECONDS = 120"

definition JOB_TIMEOUT_SECONDS :: int where
  "JOB_TIMEOUT_SECONDS = 14 * 60"

text \<open>
  \<^verbatim>\<open>INSERT OR REPLACE INTO parlay_usage ... VALUES (?, ?, ?, 'pending')\<close>: a row with the
  same primary key is deleted, then the new row is inserted.
\<close>

definition create_pending_job :: "string \<Rightarrow> int \<Rightarrow> string \<Rightarrow> ledger \<Rightarrow> ledger" where
  "create_pending_job jid uid d db =
     filter (\<lambda>r. job_id r \<noteq> jid) db
       @ [\<lparr>job_id = jid, user_id = uid, et_date = d, status = Pending\<rparr>]"

text \<open>\<^verbatim>\<open>UPDATE parlay_usage SET status=? WHERE job_id=?\<close>: unconditional, and it
  returns nothing.\<close>

definition set_job_status :: "string \<Rightarrow> job_status \<Rightarrow> ledger \<Rightarrow> ledger" where
  "set_job_status jid st db = map (\<lambda>r. if job_id r = jid then r\<lparr>status := st\<rparr> else r) db"

text \<open>\<^verbatim>\<open>SELECT COUNT(1) ... WHERE user_id=? AND et_date=? AND status='success'\<close>.\<close>

definition count_success_today :: "int \<Rightarrow> string \<Rightarrow> ledger \<Rightarrow> int" where
  "count_success_today uid d db =
     int (length (filter (\<lambda>r. user_id r = uid \<and> et_date r = d \<and> status r = Success) db))"

text \<open>The first argument is the value of \<^verbatim>\<open>_today_et_str()\<close>, the clock's date in
  Eastern time.\<close>

definition remaining_today :: "string \<Rightarrow> int \<Rightarrow> ledger \<Rightarrow> int \<times> string" where
  "remaining_today today uid db =
     (let used = count_success_today uid today db;
          remaining = max 0 (DAILY_MAX_PARLAYS - used)
      in (remaining, today))"

section \<open>Strings and the regular expressions of utils/parlay_research.py\<close>

definition DQ :: char where "DQ = CHR 0x22"
definition SQ :: char where "SQ = CHR 0x27"
definition BACKSLASH :: char where "BACKSLASH = CHR 0x5C"
definition BACKTICK :: char where "BACKTICK = CHR 0x60"
definition NEWLINE :: char where "NEWLINE = CHR 0x0A"

definition starts_with :: "string \<Rightarrow> string \<Rightarrow> bool" where
  "starts_with p s = (take (length p) s = p)"

definition ends_with :: "string \<Rightarrow> string \<Rightarrow> bool" where
  "ends_with p s = (drop (length s - length p) s = p)"

text \<open>
  The characters for which \<^verbatim>\<open>str.isspace\<close> holds, each as its UTF-8 bytes:
  U+0009 to U+000D, U+001C to U+0020, U+0085, U+00A0, U+1680, U+2000 to U+200A, U+2028,
  U+2029, U+202F, U+205F and U+3000. \<^verbatim>\<open>str.strip()\<close> and the class \<^verbatim>\<open>\s\<close> of a
  \<^verbatim>\<open>str\<close> pattern use this set.
\<close>

definition WHITESPACE :: "string list" where
  "WHITESPACE =
     [[CHR 0x09], [CHR 0x0A], [CHR 0x0B], [CHR 0x0C], [CHR 0x0D],
      [CHR 0x1C], [CHR 0x1D], [CHR 0x1E], [CHR 0x1F], [CHR 0x20],
      [CHR 0xC2, CHR 0x85], [CHR 0xC2, CHR 0xA0],
      [CHR 0xE1, CHR 0x9A, CHR 0x80],
      [CHR 0xE2, CHR 0x80, CHR 0x80], [CHR 0xE2, CHR 0x80, CHR 0x81],
      [CHR 0xE2, CHR 0x80, CHR 0x82], [CHR 0xE2, CHR 0x80, CHR 0x83],
      [CHR 0xE2, CHR 0x80, CHR 0x84], [CHR 0xE2, CHR 0x80, CHR 0x85],
      [CHR 0xE2, CHR 0x80, CHR 0x86], [CHR 0xE2, CHR 0x80, CHR 0x87],
      [CHR 0xE2, CHR 0x80, CHR 0x88], [CHR 0xE2, CHR 0x80, CHR 0x89],
      [CHR 0xE2, CHR 0x80, CHR 0x8A],
      [CHR 0xE2, CHR 0x80, CHR 0xA8], [CHR 0xE2, CHR 0x80, CHR 0xA9],
      [CHR 0xE2, CHR 0x80, CHR 0xAF],
      [CHR 0xE2, CHR 0x81, CHR 0x9F],
      [CHR 0xE3, CHR 0x80, CHR 0x80]]"

text \<open>The text after the whitespace character it starts with, and the text before the
  whitespace character it ends with; \<open>None\<close> when there is none.\<close>

definition ws_rest :: "string \<Rightarrow> string option" where
  "ws_rest s =
     (case filter (\<lambda>w. starts_with w s) WHITESPACE of
        [] \<Rightarrow> None
      | w # _ \<Rightarrow> Some (drop (length w) s))"

definition ws_rest_end :: "string \<Rightarrow> string option" where
  "ws_rest_end s =
     (case filter (\<lambda>w. ends_with w s) WHITESPACE of
        [] \<Rightarrow> None
      | w # _ \<Rightarrow> Some (take (length s - length w) s))"

lemma whitespace_not_empty: "w \<in> set WHITESPACE \<Longrightarrow> w \<noteq> []"
  by (auto simp: WHITESPACE_def)

lemma ws_rest_shorter: "ws_rest s = Some r \<Longrightarrow> length r < length s"
proof -
  assume a: "ws_rest s = Some r"
  then obtain w ws where f: "filter (\<lambda>w. starts_with w s) WHITESPACE = w # ws"
    and r: "r = drop (length w) s"
    by (auto simp: ws_rest_def split: list.splits)
  from f have "w \<in> set (filter (\<lambda>w. starts_with w s) WHITESPACE)" by simp
  then have w: "w \<in> set WHITESPACE" and p: "take (length w) s = w"
    by (simp_all add: starts_with_def)
  from w have "w \<noteq> []" by (rule whitespace_not_empty)
  with p have "s \<noteq> []" by auto
  moreover from \<open>w \<noteq> []\<close> have "0 < length w" by simp
  ultimately show ?thesis using r by simp
qed

lemma ws_rest_end_shorter: "ws_rest_end s = Some r \<Longrightarrow> length r < length s"
proof -
  assume a: "ws_rest_end s = Some r"
  then obtain w ws where f: "filter (\<lambda>w. ends_with w s) WHITESPACE = w # ws"
    and r: "r = take (length s - length w) s"
    by (auto simp: ws_rest_end_def split: list.splits)
  from f have "w \<in> set (filter (\<lambda>w. ends_with w s) WHITESPACE)" by simp
  then have w: "w \<in> set WHITESPACE" and p: "drop (length s - length w) s = w"
    by (simp_all add: ends_with_def)
  from w have "w \<noteq> []" by (rule whitespace_not_empty)
  with p have "s \<noteq> []" by auto
  moreover from \<open>w \<noteq> []\<close> have "0 < length w" by simp
  ultimately show ?thesis using r by simp
qed

text \<open>The text without the whitespace it starts with, or ends with.\<close>

function drop_ws :: "string \<Rightarrow> string" where
  "drop_ws s = (case ws_rest s of None \<Rightarrow> s | Some r \<Rightarrow> drop_ws r)"
  by pat_completeness auto
termination
  by (relation "measure length") (auto dest: ws_rest_shorter)

function drop_ws_end :: "string \<Rightarrow> string" where
  "drop_ws_end s = (case ws_rest_end s of None \<Rightarrow> s | Some r \<Rightarrow> drop_ws_end r)"
  by pat_completeness auto
termination
  by (relation "measure length") (auto dest: ws_rest_end_shorter)

declare drop_ws.simps [simp del]
declare drop_ws_end.simps [simp del]

lemma drop_ws_shorter: "length (drop_ws s) \<le> length s"
proof (induction s rule: drop_ws.induct)
  case (1 s)
  show ?case
  proof (cases "ws_rest s")
    case None
    then show ?thesis by (simp add: drop_ws.simps [of s])
  next
    case (Some r)
    with "1" [OF Some] ws_rest_shorter [OF Some] show ?thesis
      by (simp add: drop_ws.simps [of s])
  qed
qed

text \<open>The suffixes left when no, one, two, \<dots> of the whitespace characters at the
  start are dropped.\<close>

function ws_suffixes :: "string \<Rightarrow> string list" where
  "ws_suffixes s = s # (case ws_rest s of None \<Rightarrow> [] | Some r \<Rightarrow> ws_suffixes r)"
  by pat_completeness auto
termination
  by (relation "measure length") (auto dest: ws_rest_shorter)

declare ws_suffixes.simps [simp del]

definition strip_chars :: "char list \<Rightarrow> string \<Rightarrow> string" where
  "strip_chars cs s =
     rev (dropWhile (\<lambda>c. c \<in> set cs) (rev (dropWhile (\<lambda>c. c \<in> set cs) s)))"

definition py_strip :: "string \<Rightarrow> string" where
  "py_strip s = drop_ws_end (drop_ws s)"

text \<open>
  \<^verbatim>\<open>s.lower()\<close>, as far as the code uses it: the result is compared with words of
  \<^verbatim>\<open>a\<close> to \<^verbatim>\<open>z\<close> without \<^verbatim>\<open>k\<close>. Only the letters \<^verbatim>\<open>A\<close> to \<^verbatim>\<open>Z\<close> are changed
  here; of the characters beyond ASCII only U+212A has a lower case in ASCII, and it is
  \<^verbatim>\<open>k\<close>.
\<close>

definition lower_char :: "char \<Rightarrow> char" where
  "lower_char c =
     (let n = (of_char c :: nat) in if 65 \<le> n \<and> n \<le> 90 then char_of (n + 32) else c)"

definition py_lower :: "string \<Rightarrow> string" where
  "py_lower s = map lower_char s"

text \<open>\<^verbatim>\<open>len(s)\<close> and \<^verbatim>\<open>s[:n]\<close> count characters: the bytes that do not continue
  a character (\<open>0x80\<close> to \<open>0xBF\<close> do).\<close>

definition is_continuation :: "char \<Rightarrow> bool" where
  "is_continuation c = (let n = (of_char c :: nat) in 128 \<le> n \<and> n < 192)"

definition py_len :: "string \<Rightarrow> nat" where
  "py_len s = length (filter (\<lambda>c. \<not> is_continuation c) s)"

fun py_take :: "nat \<Rightarrow> string \<Rightarrow> string" where
  "py_take n [] = []"
| "py_take n (c # cs) =
     (if is_continuation c then c # py_take n cs
      else (case n of 0 \<Rightarrow> [] | Suc m \<Rightarrow> c # py_take m cs))"

fun find_from :: "char \<Rightarrow> string \<Rightarrow> int \<Rightarrow> int" where
  "find_from c [] i = - 1"
| "find_from c (x # xs) i = (if x = c then i else find_from c xs (i + 1))"

text \<open>\<^verbatim>\<open>s.find(c)\<close> and \<^verbatim>\<open>s.rfind(c)\<close> for a needle of one ASCII character: the
  index, or -1; and \<^verbatim>\<open>s[a:b]\<close> for two such indices. Index and slice count bytes
  here, which gives the same substring.\<close>

definition py_find :: "char \<Rightarrow> string \<Rightarrow> int" where
  "py_find c s = find_from c s 0"

definition py_rfind :: "char \<Rightarrow> string \<Rightarrow> int" where
  "py_rfind c s =
     (let r = find_from c (rev s) 0 in if r = - 1 then - 1 else int (length s) - 1 - r)"

definition py_slice :: "string \<Rightarrow> int \<Rightarrow> int \<Rightarrow> string" where
  "py_slice s a b = drop (nat a) (take (nat b) s)"

definition FENCE :: string where
  "FENCE = [BACKTICK, BACKTICK, BACKTICK]"

text \<open>
  \<^verbatim>\<open>re.search(r"```(?:json)?\s*(.+?)\s*```", s, re.DOTALL | re.IGNORECASE)\<close>, as the
  backtracking matcher runs it; the value is group 1 of the leftmost match.
  \<open>lazy_group\<close> is \<^verbatim>\<open>(.+?)\s*```\<close>: the shortest group of at least one character
  after which whitespace and a fence follow.
\<close>

fun lazy_group :: "string \<Rightarrow> string \<Rightarrow> string option" where
  "lazy_group acc [] = None"
| "lazy_group acc (c # cs) =
     (if starts_with FENCE (drop_ws cs) then Some (acc @ [c])
      else lazy_group (acc @ [c]) cs)"

fun first_some :: "'a option list \<Rightarrow> 'a option" where
  "first_some [] = None"
| "first_some (None # xs) = first_some xs"
| "first_some (Some x # xs) = Some x"

text \<open>\<^verbatim>\<open>\s*(.+?)\s*```\<close>: the greedy \<^verbatim>\<open>\s*\<close> takes all the whitespace first and gives
  it back one character at a time.\<close>

definition ws_then_group :: "string \<Rightarrow> string option" where
  "ws_then_group s = first_some (map (lazy_group []) (rev (ws_suffixes s)))"

text \<open>The text after the word \<^verbatim>\<open>json\<close> in any case; with \<^verbatim>\<open>re.IGNORECASE\<close> the
  letter \<^verbatim>\<open>s\<close> of a pattern also matches U+017F.\<close>

definition json_word_rest :: "string \<Rightarrow> string option" where
  "json_word_rest s =
     (case s of
        j # r1 \<Rightarrow>
          if lower_char j \<noteq> CHR ''j'' then None
          else
            (case (case r1 of
                     [] \<Rightarrow> None
                   | x # r2 \<Rightarrow>
                       if lower_char x = CHR ''s'' then Some r2
                       else if starts_with [CHR 0xC5, CHR 0xBF] r1 then Some (drop 2 r1)
                       else None)
             of
               Some (p # q # r3) \<Rightarrow>
                 if lower_char p = CHR ''o'' \<and> lower_char q = CHR ''n'' then Some r3 else None
             | _ \<Rightarrow> None)
      | [] \<Rightarrow> None)"

text \<open>What follows an opening fence: \<^verbatim>\<open>(?:json)?\<close> is tried with the word, then
  without it.\<close>

definition after_fence :: "string \<Rightarrow> string option" where
  "after_fence s =
     (case (case json_word_rest s of Some r \<Rightarrow> ws_then_group r | None \<Rightarrow> None) of
        Some g \<Rightarrow> Some g
      | None \<Rightarrow> ws_then_group s)"

fun fence_search :: "string \<Rightarrow> string option" where
  "fence_search [] = None"
| "fence_search (c # cs) =
     (case (if starts_with FENCE (c # cs) then after_fence (drop 3 (c # cs)) else None) of
        Some g \<Rightarrow> Some g
      | None \<Rightarrow> fence_search cs)"

text \<open>
  \<^verbatim>\<open>re.sub(r",\s*([}\]])", r"\1", t)\<close>: a comma, any whitespace and a closing bracket
  become the bracket, wherever they stand in the text.
\<close>

definition bracket_follows :: "string \<Rightarrow> bool" where
  "bracket_follows s =
     (case drop_ws s of [] \<Rightarrow> False | d # _ \<Rightarrow> d = CHR ''}'' \<or> d = CHR '']'')"

function remove_trailing_commas :: "string \<Rightarrow> string" where
  "remove_trailing_commas [] = []"
| "remove_trailing_commas (c # cs) =
     (if c = CHR '','' \<and> bracket_follows cs then
        (case drop_ws cs of [] \<Rightarrow> [] | d # ds \<Rightarrow> d # remove_trailing_commas ds)
      else c # remove_trailing_commas cs)"
  by pat_completeness auto
termination
proof (relation "measure length")
  fix c :: char and cs d ds
  assume "drop_ws cs = d # ds"
  with drop_ws_shorter [of cs] show "(ds, c # cs) \<in> measure length" by simp
qed auto

text \<open>\<^verbatim>\<open>re.sub(r'(?<!\\)\'', '"', t)\<close>: every single quote that no backslash precedes
  becomes a double quote. The first argument is the character before the position.\<close>

fun convert_quotes :: "char option \<Rightarrow> string \<Rightarrow> string" where
  "convert_quotes prev [] = []"
| "convert_quotes prev (c # cs) =
     (if c = SQ \<and> prev \<noteq> Some BACKSLASH then DQ else c) # convert_quotes (Some c) cs"

section \<open>JSON values and \<^verbatim>\<open>json.loads\<close>\<close>

text \<open>
  What \<^verbatim>\<open>json.loads\<close> returns: \<^verbatim>\<open>None\<close>, a bool, an int, a float, a str, a list or a
  dict. A float is kept as the text of its literal (the program only tests it for truth
  and prints it, see \<open>py_runtime\<close> below). A dict is the list of its items in insertion
  order, with distinct keys.
\<close>

datatype json =
    JNull
  | JBool bool
  | JInt int
  | JFloat string
  | JStr string
  | JArr "json list"
  | JObj "(string \<times> json) list"

text \<open>\<^verbatim>\<open>d[k] = v\<close>: a key that is present keeps its place.\<close>

fun dict_set :: "(string \<times> json) list \<Rightarrow> string \<Rightarrow> json \<Rightarrow> (string \<times> json) list" where
  "dict_set [] k v = [(k, v)]"
| "dict_set ((k', v') # kvs) k v =
     (if k' = k then (k, v) # kvs else (k', v') # dict_set kvs k v)"

definition dict_get :: "(string \<times> json) list \<Rightarrow> string \<Rightarrow> json option" where
  "dict_get kvs k = map_of kvs k"

definition json_ws :: "char \<Rightarrow> bool" where
  "json_ws c = (c \<in> set [CHR 0x20, CHR 0x09, CHR 0x0A, CHR 0x0D])"

definition skip_ws :: "string \<Rightarrow> string" where
  "skip_ws s = dropWhile json_ws s"

definition is_digit :: "char \<Rightarrow> bool" where
  "is_digit c = (let n = (of_char c :: nat) in 48 \<le> n \<and> n \<le> 57)"

definition digit_val :: "char \<Rightarrow> nat" where
  "digit_val c = of_char c - 48"

definition hex_val :: "char \<Rightarrow> nat option" where
  "hex_val c =
     (let n = (of_char c :: nat) in
      if 48 \<le> n \<and> n \<le> 57 then Some (n - 48)
      else if 65 \<le> n \<and> n \<le> 70 then Some (n - 55)
      else if 97 \<le> n \<and> n \<le> 102 then Some (n - 87)
      else None)"

fun hex4 :: "string \<Rightarrow> nat option" where
  "hex4 [a, b, c, d] =
     (case (hex_val a, hex_val b, hex_val c, hex_val d) of
        (Some x, Some y, Some z, Some w) \<Rightarrow> Some (((x * 16 + y) * 16 + z) * 16 + w)
      | _ \<Rightarrow> None)"
| "hex4 _ = None"

text \<open>The UTF-8 bytes of a code point.\<close>

definition code_point_chars :: "nat \<Rightarrow> string" where
  "code_point_chars n =
     (if n < 128 then [char_of n]
      else if n < 2048 then [char_of (192 + n div 64), char_of (128 + n mod 64)]
      else if n < 65536 then
        [char_of (224 + n div 4096), char_of (128 + (n div 64) mod 64),
         char_of (128 + n mod 64)]
      else
        [char_of (240 + n div 262144), char_of (128 + (n div 4096) mod 64),
         char_of (128 + (n div 64) mod 64), char_of (128 + n mod 64)])"

text \<open>The code point of a \<^verbatim>\<open>\uXXXX\<close> escape whose four digits gave \<open>n\<close>, and the
  text after it: a high surrogate that another escape with a low surrogate follows is
  joined with it.\<close>

definition join_surrogates :: "nat \<Rightarrow> string \<Rightarrow> nat \<times> string" where
  "join_surrogates n s =
     (if 55296 \<le> n \<and> n \<le> 56319 \<and> starts_with [BACKSLASH, CHR ''u''] s then
        (case hex4 (take 4 (drop 2 s)) of
           None \<Rightarrow> (n, s)
         | Some m \<Rightarrow>
             if 56320 \<le> m \<and> m \<le> 57343
             then (65536 + (n - 55296) * 1024 + (m - 56320), drop 6 s)
             else (n, s))
      else (n, s))"

definition unescape :: "char \<Rightarrow> char option" where
  "unescape e =
     (if e = DQ then Some DQ
      else if e = BACKSLASH then Some BACKSLASH
      else if e = CHR ''/'' then Some (CHR ''/'')
      else if e = CHR ''b'' then Some (CHR 0x08)
      else if e = CHR ''f'' then Some (CHR 0x0C)
      else if e = CHR ''n'' then Some (CHR 0x0A)
      else if e = CHR ''r'' then Some (CHR 0x0D)
      else if e = CHR ''t'' then Some (CHR 0x09)
      else None)"

text \<open>A string after its opening quote (strict mode: a raw control character is an
  error). The result is the string and the text after the closing quote.\<close>

lemma join_surrogates_shorter: "length (snd (join_surrogates n s)) \<le> length s"
  by (simp add: join_surrogates_def split: option.split)

function parse_string :: "string \<Rightarrow> string \<Rightarrow> (string \<times> string) option" where
  "parse_string acc [] = None"
| "parse_string acc (c # cs) =
     (if c = DQ then Some (acc, cs)
      else if c = BACKSLASH then
        (case cs of
           [] \<Rightarrow> None
         | e # es \<Rightarrow>
             if e = CHR ''u'' then
               (case hex4 (take 4 es) of
                  None \<Rightarrow> None
                | Some n \<Rightarrow>
                    parse_string (acc @ code_point_chars (fst (join_surrogates n (drop 4 es))))
                      (snd (join_surrogates n (drop 4 es))))
             else
               (case unescape e of
                  None \<Rightarrow> None
                | Some x \<Rightarrow> parse_string (acc @ [x]) es))
      else if (of_char c :: nat) < 32 then None
      else parse_string (acc @ [c]) cs)"
  by pat_completeness auto
termination
proof (relation "measure (\<lambda>(acc, s). length s)")
  fix acc :: string and c e :: char and cs es :: string and n :: nat
  assume "cs = e # es"
  with join_surrogates_shorter [of n "drop 4 es"]
  show "((acc @ code_point_chars (fst (join_surrogates n (drop 4 es))),
          snd (join_surrogates n (drop 4 es))), acc, c # cs)
        \<in> measure (\<lambda>(acc, s). length s)"
    by simp
qed auto

fun digits_val :: "nat \<Rightarrow> string \<Rightarrow> nat" where
  "digits_val acc [] = acc"
| "digits_val acc (c # cs) = digits_val (acc * 10 + digit_val c) cs"

text \<open>
  A number, by \<^verbatim>\<open>(-?(?:0|[1-9][0-9]*))(\.[0-9]+)?([eE][-+]?[0-9]+)?\<close>: an int when it
  has neither fraction nor exponent, else a float. The argument \<open>neg\<close> says that a minus
  sign was read before \<open>s\<close>.
\<close>

definition parse_number :: "bool \<Rightarrow> string \<Rightarrow> (json \<times> string) option" where
  "parse_number neg s =
     (case s of
        [] \<Rightarrow> None
      | c # cs \<Rightarrow>
          if \<not> is_digit c then None
          else
            (let ip = (if c = CHR ''0'' then [c] else takeWhile is_digit s);
                 r1 = drop (length ip) s;
                 fd = (case r1 of
                         [] \<Rightarrow> []
                       | d # ds \<Rightarrow> if d = CHR ''.'' \<and> takeWhile is_digit ds \<noteq> []
                                   then d # takeWhile is_digit ds else []);
                 r2 = drop (length fd) r1;
                 ex = (case r2 of
                         [] \<Rightarrow> []
                       | e # es \<Rightarrow>
                           if e = CHR ''e'' \<or> e = CHR ''E'' then
                             (case es of
                                [] \<Rightarrow> []
                              | g # gs \<Rightarrow>
                                  if (g = CHR ''+'' \<or> g = CHR ''-'') \<and> takeWhile is_digit gs \<noteq> []
                                  then e # g # takeWhile is_digit gs
                                  else if takeWhile is_digit es \<noteq> [] then e # takeWhile is_digit es
                                  else [])
                           else []);
                 r3 = drop (length ex) r2;
                 sign = (if neg then ''-'' else [])
             in if fd = [] \<and> ex = []
                then Some (JInt ((if neg then - 1 else 1) * int (digits_val 0 ip)), r3)
                else Some (JFloat (sign @ ip @ fd @ ex), r3)))"

text \<open>
  The recursive descent of the decoder. The first argument bounds the number of nested
  calls; \<open>json_loads\<close> starts it at twice the length of the text plus one, and every
  second call reads at least one character.
\<close>

fun parse_value :: "nat \<Rightarrow> string \<Rightarrow> (json \<times> string) option"
and parse_elems :: "nat \<Rightarrow> json list \<Rightarrow> string \<Rightarrow> (json list \<times> string) option"
and parse_members ::
  "nat \<Rightarrow> (string \<times> json) list \<Rightarrow> string \<Rightarrow> ((string \<times> json) list \<times> string) option"
where
  "parse_value 0 s = None"
| "parse_value (Suc n) s =
     (case s of
        [] \<Rightarrow> None
      | c # cs \<Rightarrow>
          if c = DQ then
            (case parse_string [] cs of None \<Rightarrow> None | Some (x, r) \<Rightarrow> Some (JStr x, r))
          else if c = CHR ''{'' then
            (case skip_ws cs of
               [] \<Rightarrow> None
             | d # ds \<Rightarrow>
                 if d = CHR ''}'' then Some (JObj [], ds)
                 else (case parse_members n [] (d # ds) of
                         None \<Rightarrow> None
                       | Some (kvs, r) \<Rightarrow> Some (JObj kvs, r)))
          else if c = CHR ''['' then
            (case skip_ws cs of
               [] \<Rightarrow> None
             | d # ds \<Rightarrow>
                 if d = CHR '']'' then Some (JArr [], ds)
                 else (case parse_elems n [] (d # ds) of
                         None \<Rightarrow> None
                       | Some (xs, r) \<Rightarrow> Some (JArr xs, r)))
          else if starts_with ''null'' s then Some (JNull, drop 4 s)
          else if starts_with ''true'' s then Some (JBool True, drop 4 s)
          else if starts_with ''false'' s then Some (JBool False, drop 5 s)
          else if starts_with ''NaN'' s then Some (JFloat ''NaN'', drop 3 s)
          else if starts_with ''Infinity'' s then Some (JFloat ''Infinity'', drop 8 s)
          else if starts_with ''-Infinity'' s then Some (JFloat ''-Infinity'', drop 9 s)
          else if c = CHR ''-'' then parse_number True cs
          else parse_number False s)"
| "parse_elems 0 acc s = None"
| "parse_elems (Suc n) acc s =
     (case parse_value n s of
        None \<Rightarrow> None
      | Some (v, r) \<Rightarrow>
          (case skip_ws r of
             [] \<Rightarrow> None
           | d # ds \<Rightarrow>
               if d = CHR '']'' then Some (acc @ [v], ds)
               else if d = CHR '','' then parse_elems n (acc @ [v]) (skip_ws ds)
               else None))"
| "parse_members 0 acc s = None"
| "parse_members (Suc n) acc s =
     (case s of
        [] \<Rightarrow> None
      | q # qs \<Rightarrow>
          if q \<noteq> DQ then None
          else
            (case parse_string [] qs of
               None \<Rightarrow> None
             | Some (k, r) \<Rightarrow>
                 (case skip_ws r of
                    [] \<Rightarrow> None
                  | c # cs \<Rightarrow>
                      if c \<noteq> CHR '':'' then None
                      else
                        (case parse_value n (skip_ws cs) of
                           None \<Rightarrow> None
                         | Some (v, r') \<Rightarrow>
                             (case skip_ws r' of
                                [] \<Rightarrow> None
                              | d # ds \<Rightarrow>
                                  if d = CHR ''}'' then Some (dict_set acc k v, ds)
                                  else if d = CHR '','' then
                                    parse_members n (dict_set acc k v) (skip_ws ds)
                                  else None)))))"

text \<open>
  \<^verbatim>\<open>json.loads(s)\<close>: one value between whitespace, and nothing after it; \<open>None\<close>
  is the decoder's exception. The decoder is modelled within the limits of the
  interpreter: on a text nested deeper than the recursion limit allows, or with an
  integer of more digits than \<^verbatim>\<open>sys.get_int_max_str_digits()\<close>, \<^verbatim>\<open>json.loads\<close>
  raises where this function decodes; see \<open>within_decoder_limits\<close> below.
\<close>

definition json_loads :: "string \<Rightarrow> json option" where
  "json_loads s =
     (case parse_value (Suc (2 * length s)) (skip_ws s) of
        None \<Rightarrow> None
      | Some (v, r) \<Rightarrow> if skip_ws r = [] then Some v else None)"

section \<open>\<^verbatim>\<open>_extract_json_from_text\<close>\<close>

text \<open>
  \<open>None\<close> is the exception the function lets through (the second \<^verbatim>\<open>json.loads\<close>
  failing). The key of the legs is \<^verbatim>\<open>"parlay"\<close>.
\<close>

definition wrap_array :: "json list \<Rightarrow> json" where
  "wrap_array xs =
     JObj [(''parlay'', JArr xs), (''rationales'', JArr []), (''risks'', JStr []),
           (''sources'', JArr [])]"

definition isolate_block :: "string \<Rightarrow> string" where
  "isolate_block s =
     (let start_obj = py_find (CHR ''{'') s; end_obj = py_rfind (CHR ''}'') s;
          start_arr = py_find (CHR ''['') s; end_arr = py_rfind (CHR '']'') s
      in if start_obj \<noteq> - 1 \<and> end_obj \<noteq> - 1 \<and> end_obj > start_obj
           then py_slice s start_obj (end_obj + 1)
         else if start_arr \<noteq> - 1 \<and> end_arr \<noteq> - 1 \<and> end_arr > start_arr
           then py_slice s start_arr (end_arr + 1)
         else s)"

definition repair :: "string \<Rightarrow> string" where
  "repair t0 =
     (let t = remove_trailing_commas t0
      in if SQ \<in> set t \<and> DQ \<notin> set (py_take 80 t) then convert_quotes None t else t)"

definition extract_json_from_text :: "string \<Rightarrow> json option" where
  "extract_json_from_text text =
     (let s0 = py_strip text;
          s = (case fence_search s0 of Some g \<Rightarrow> py_strip g | None \<Rightarrow> s0);
          candidate = isolate_block s;
          t = repair (py_strip candidate);
          data = (case json_loads t of
                    Some d \<Rightarrow> Some d
                  | None \<Rightarrow> json_loads (strip_chars [BACKTICK, CHR 0x20, CHR 0x0A, CHR 0x0D, CHR 0x09] t))
      in case data of
           None \<Rightarrow> None
         | Some (JArr xs) \<Rightarrow> Some (wrap_array xs)
         | Some d \<Rightarrow> Some d)"

section \<open>The schema: \<^verbatim>\<open>ParlayLeg\<close> and \<^verbatim>\<open>ParlayResult\<close>\<close>

record parlay_leg =
  market :: string
  selection :: string
  book_examples :: "string list"
  confidence :: string

record parlay_result =
  parlay :: "parlay_leg list"
  rationales :: "string list"
  risks :: string
  sources :: "string list"

text \<open>The field validator \<^verbatim>\<open>ParlayLeg._conf_ok\<close>; \<open>None\<close> is its \<^verbatim>\<open>ValueError\<close>.\<close>

definition conf_ok :: "string \<Rightarrow> string option" where
  "conf_ok v =
     (let v2 = py_lower (py_strip v)
      in if v2 \<in> set [''low'', ''medium'', ''high''] then Some v2 else None)"

text \<open>
  Validation of a value that came from \<^verbatim>\<open>json.loads\<close>, as pydantic does it for the
  two classes: a \<^verbatim>\<open>str\<close> field takes a str only, a \<^verbatim>\<open>List[str]\<close> field a list of
  strs only, a model a dict whose required fields are present; a key that is no field is
  ignored, a missing field with a default takes it. \<open>None\<close> is the \<^verbatim>\<open>ValidationError\<close>.
\<close>

definition validate_str :: "json \<Rightarrow> string option" where
  "validate_str v = (case v of JStr s \<Rightarrow> Some s | _ \<Rightarrow> None)"

fun sequence :: "'a option list \<Rightarrow> 'a list option" where
  "sequence [] = Some []"
| "sequence (x # xs) =
     (case x of
        None \<Rightarrow> None
      | Some y \<Rightarrow> (case sequence xs of None \<Rightarrow> None | Some ys \<Rightarrow> Some (y # ys)))"

definition validate_str_list :: "json \<Rightarrow> string list option" where
  "validate_str_list v = (case v of JArr xs \<Rightarrow> sequence (map validate_str xs) | _ \<Rightarrow> None)"

definition validate_leg :: "json \<Rightarrow> parlay_leg option" where
  "validate_leg v =
     (case v of
        JObj kvs \<Rightarrow>
          (case (case dict_get kvs ''market'' of None \<Rightarrow> None | Some x \<Rightarrow> validate_str x,
                 case dict_get kvs ''selection'' of None \<Rightarrow> None | Some x \<Rightarrow> validate_str x,
                 case dict_get kvs ''book_examples'' of
                   None \<Rightarrow> Some []
                 | Some x \<Rightarrow> validate_str_list x,
                 case dict_get kvs ''confidence'' of
                   None \<Rightarrow> None
                 | Some x \<Rightarrow> (case validate_str x of None \<Rightarrow> None | Some c \<Rightarrow> conf_ok c))
           of
             (Some m, Some s, Some b, Some c) \<Rightarrow>
               Some \<lparr>market = m, selection = s, book_examples = b, confidence = c\<rparr>
           | _ \<Rightarrow> None)
      | _ \<Rightarrow> None)"

definition validate_leg_list :: "json \<Rightarrow> parlay_leg list option" where
  "validate_leg_list v = (case v of JArr xs \<Rightarrow> sequence (map validate_leg xs) | _ \<Rightarrow> None)"

text \<open>\<^verbatim>\<open>ParlayResult.model_validate(data)\<close>.\<close>

definition model_validate :: "json \<Rightarrow> parlay_result option" where
  "model_validate data =
     (case data of
        JObj kvs \<Rightarrow>
          (case (case dict_get kvs ''parlay'' of None \<Rightarrow> Some [] | Some x \<Rightarrow> validate_leg_list x,
                 case dict_get kvs ''rationales'' of
                   None \<Rightarrow> Some []
                 | Some x \<Rightarrow> validate_str_list x,
                 case dict_get kvs ''risks'' of None \<Rightarrow> Some [] | Some x \<Rightarrow> validate_str x,
                 case dict_get kvs ''sources'' of None \<Rightarrow> Some [] | Some x \<Rightarrow> validate_str_list x)
           of
             (Some p, Some ra, Some ri, Some so) \<Rightarrow>
               Some \<lparr>parlay = p, rationales = ra, risks = ri, sources = so\<rparr>
           | _ \<Rightarrow> None)
      | _ \<Rightarrow> None)"

text \<open>The object a result stands for in JSON, with every key present.\<close>

definition leg_object :: "parlay_leg \<Rightarrow> json" where
  "leg_object l =
     JObj [(''market'', JStr (market l)), (''selection'', JStr (selection l)),
           (''book_examples'', JArr (map JStr (book_examples l))),
           (''confidence'', JStr (confidence l))]"

definition result_object :: "parlay_result \<Rightarrow> json" where
  "result_object r =
     JObj [(''parlay'', JArr (map leg_object (parlay r))),
           (''rationales'', JArr (map JStr (rationales r))),
           (''risks'', JStr (risks r)),
           (''sources'', JArr (map JStr (sources r)))]"

section \<open>The salvage path of \<^verbatim>\<open>run_deep_research\<close>\<close>

text \<open>
  What the salvage path asks of the Python runtime and of pydantic beyond the above:
  whether a float is true, \<^verbatim>\<open>str(x)\<close> of a float, a list or a dict, and the text of the
  \<^verbatim>\<open>ValidationError\<close> that \<^verbatim>\<open>model_validate\<close> raised for a value. They are arguments
  of the model; no theorem below depends on what they return. The last two fields are
  the limits of the decoder in this runtime: the deepest nesting \<^verbatim>\<open>json.loads\<close>
  decodes before the recursion limit stops it, and \<^verbatim>\<open>sys.get_int_max_str_digits()\<close>
  (0 when integers are not limited).
\<close>

record py_runtime =
  float_truth :: "string \<Rightarrow> bool"
  str_other :: "json \<Rightarrow> string"
  validation_error_text :: "json \<Rightarrow> string"
  json_depth_limit :: nat
  int_max_str_digits :: nat

text \<open>A runtime to evaluate examples with.\<close>

definition plain_runtime :: py_runtime where
  "plain_runtime =
     \<lparr>float_truth = (\<lambda>l. True), str_other = (\<lambda>v. ''<repr>''),
      validation_error_text = (\<lambda>v. ''<validation error>''),
      json_depth_limit = 900, int_max_str_digits = 4300\<rparr>"

fun show_nat :: "nat \<Rightarrow> string" where
  "show_nat n =
     (if n < 10 then [char_of (48 + n)] else show_nat (n div 10) @ [char_of (48 + n mod 10)])"

definition show_int :: "int \<Rightarrow> string" where
  "show_int i = (if i < 0 then CHR ''-'' # show_nat (nat (- i)) else show_nat (nat i))"

text \<open>\<^verbatim>\<open>str(x)\<close>.\<close>

definition py_str :: "py_runtime \<Rightarrow> json \<Rightarrow> string" where
  "py_str rt v =
     (case v of
        JStr s \<Rightarrow> s
      | JInt i \<Rightarrow> show_int i
      | JBool b \<Rightarrow> (if b then ''True'' else ''False'')
      | JNull \<Rightarrow> ''None''
      | _ \<Rightarrow> str_other rt v)"

text \<open>The truth value of \<^verbatim>\<open>x\<close>, as \<^verbatim>\<open>x or y\<close> tests it.\<close>

definition truthy :: "py_runtime \<Rightarrow> json \<Rightarrow> bool" where
  "truthy rt v =
     (case v of
        JNull \<Rightarrow> False
      | JBool b \<Rightarrow> b
      | JInt i \<Rightarrow> i \<noteq> 0
      | JFloat l \<Rightarrow> float_truth rt l
      | JStr s \<Rightarrow> s \<noteq> []
      | JArr xs \<Rightarrow> xs \<noteq> []
      | JObj kvs \<Rightarrow> kvs \<noteq> [])"

text \<open>\<^verbatim>\<open>data.get(key) or default\<close>, for a dict \<^verbatim>\<open>data\<close>.\<close>

definition get_or :: "py_runtime \<Rightarrow> (string \<times> json) list \<Rightarrow> string \<Rightarrow> json \<Rightarrow> json" where
  "get_or rt kvs k dflt =
     (case dict_get kvs k of
        None \<Rightarrow> dflt
      | Some v \<Rightarrow> if truthy rt v then v else dflt)"

text \<open>The items a \<^verbatim>\<open>for\<close> loop over the value sees: the elements of a list, the keys
  of a dict, the characters of a str; \<open>None\<close> is the \<^verbatim>\<open>TypeError\<close> of a value that is
  not iterable.\<close>

definition iterate :: "json \<Rightarrow> json list option" where
  "iterate v =
     (case v of
        JArr xs \<Rightarrow> Some xs
      | JObj kvs \<Rightarrow> Some (map (\<lambda>kv. JStr (fst kv)) kvs)
      | JStr s \<Rightarrow> Some (map (\<lambda>c. JStr [c]) s)
      | _ \<Rightarrow> None)"

definition is_dict :: "json \<Rightarrow> bool" where
  "is_dict v = (case v of JObj _ \<Rightarrow> True | _ \<Rightarrow> False)"

text \<open>
  The body of the inner \<^verbatim>\<open>try\<close>; \<open>None\<close> is any exception in it (the
  \<^verbatim>\<open>AttributeError\<close> of \<^verbatim>\<open>data.get\<close> on a value that is no dict, the \<^verbatim>\<open>TypeError\<close>
  of a loop over a number, the \<^verbatim>\<open>ValidationError\<close> of \<^verbatim>\<open>ParlayLeg(**leg)\<close>).
\<close>

definition salvage :: "py_runtime \<Rightarrow> json \<Rightarrow> parlay_result option" where
  "salvage rt data =
     (case data of
        JObj kvs \<Rightarrow>
          (case iterate (get_or rt kvs ''parlay'' (JArr [])) of
             None \<Rightarrow> None
           | Some legs \<Rightarrow>
               (case sequence (map validate_leg (filter is_dict legs)) of
                  None \<Rightarrow> None
                | Some p \<Rightarrow>
                    (case iterate (get_or rt kvs ''rationales'' (JArr [])) of
                       None \<Rightarrow> None
                     | Some ra \<Rightarrow>
                         (case iterate (get_or rt kvs ''sources'' (JArr [])) of
                            None \<Rightarrow> None
                          | Some so \<Rightarrow>
                              Some \<lparr>parlay = p,
                                    rationales = map (py_str rt) ra,
                                    risks = py_str rt (get_or rt kvs ''risks'' (JStr [])),
                                    sources = map (py_str rt) so\<rparr>))))
      | _ \<Rightarrow> None)"

section \<open>Texts on which the repairs of the extraction find nothing to do\<close>

text \<open>A text holds a code fence; a text holds a comma that whitespace and a closing
  bracket follow, inside a string or outside.\<close>

fun contains_fence :: "string \<Rightarrow> bool" where
  "contains_fence [] = False"
| "contains_fence (c # cs) = (starts_with FENCE (c # cs) \<or> contains_fence cs)"

fun comma_before_bracket :: "string \<Rightarrow> bool" where
  "comma_before_bracket [] = False"
| "comma_before_bracket (c # cs) =
     ((c = CHR '','' \<and> bracket_follows cs) \<or> comma_before_bracket cs)"

text \<open>
  A text is within the limits of the decoder of a runtime when it has no more opening
  brackets than the nesting the decoder reaches, and no more digits than an integer may
  have (so no value in it is nested too deep, and no integer in it is too long). On such
  a text \<^verbatim>\<open>json.loads\<close> raises only where \<open>json_loads\<close> is \<open>None\<close>.
\<close>

definition within_decoder_limits :: "py_runtime \<Rightarrow> string \<Rightarrow> bool" where
  "within_decoder_limits rt t =
     (length (filter (\<lambda>c. c = CHR ''['' \<or> c = CHR ''{'') t) \<le> json_depth_limit rt
      \<and> (int_max_str_digits rt = 0 \<or> length (filter is_digit t) \<le> int_max_str_digits rt))"

text \<open>The leg's confidence is one of the three values as the validator returns them.\<close>

definition normal_confidence :: "parlay_leg \<Rightarrow> bool" where
  "normal_confidence l = (confidence l \<in> set [''low'', ''medium'', ''high''])"

text \<open>
  A JSON value is an object that satisfies the schema and has the fields of a leg, or of
  a result: the keys stand in any order, other keys may stand beside them, and a key
  with a default may be missing when the field has the default.
\<close>

definition leg_matches :: "json \<Rightarrow> parlay_leg \<Rightarrow> bool" where
  "leg_matches j l =
     (case j of
        JObj kvs \<Rightarrow>
          dict_get kvs ''market'' = Some (JStr (market l))
          \<and> dict_get kvs ''selection'' = Some (JStr (selection l))
          \<and> (case dict_get kvs ''book_examples'' of
                None \<Rightarrow> book_examples l = []
              | Some b \<Rightarrow> b = JArr (map JStr (book_examples l)))
          \<and> dict_get kvs ''confidence'' = Some (JStr (confidence l))
      | _ \<Rightarrow> False)"

definition result_matches :: "json \<Rightarrow> parlay_result \<Rightarrow> bool" where
  "result_matches j r =
     (case j of
        JObj kvs \<Rightarrow>
          (case dict_get kvs ''parlay'' of
             None \<Rightarrow> parlay r = []
           | Some (JArr js) \<Rightarrow> list_all2 leg_matches js (parlay r)
           | Some _ \<Rightarrow> False)
          \<and> (case dict_get kvs ''rationales'' of
                None \<Rightarrow> rationales r = []
              | Some x \<Rightarrow> x = JArr (map JStr (rationales r)))
          \<and> (case dict_get kvs ''risks'' of
                None \<Rightarrow> risks r = []
              | Some x \<Rightarrow> x = JStr (risks r))
          \<and> (case dict_get kvs ''sources'' of
                None \<Rightarrow> sources r = []
              | Some x \<Rightarrow> x = JArr (map JStr (sources r)))
      | _ \<Rightarrow> False)"

section \<open>\<^verbatim>\<open>_call_deep_research\<close>: the worker's call with retries\<close>

text \<open>
  An exception is its class, as far as the code tells classes apart, and its text
  \<^verbatim>\<open>str(e)\<close>. A response is its attribute \<^verbatim>\<open>output_text\<close>, \<open>None\<close> when it has none.
  The research API is the function from the number of calls made so far to the outcome
  of the next call of \<^verbatim>\<open>client.responses.create\<close>.
\<close>

datatype exn = TypeError string | OtherError string | RuntimeError string

datatype call_outcome = Returns "string option" | Throws exn

definition exn_text :: "exn \<Rightarrow> string" where
  "exn_text e = (case e of TypeError m \<Rightarrow> m | OtherError m \<Rightarrow> m | RuntimeError m \<Rightarrow> m)"

definition is_type_error :: "exn \<Rightarrow> bool" where
  "is_type_error e = (case e of TypeError _ \<Rightarrow> True | _ \<Rightarrow> False)"

record call_trace =
  outcome :: "exn + string option"
  attempts :: nat
  calls :: nat
  slept :: "rat list"

definition max_retries :: nat where
  "max_retries = 3"

text \<open>\<^verbatim>\<open>(2 ** attempt) + (0.1 * attempt)\<close> seconds, as the exact rational.\<close>

definition backoff :: "nat \<Rightarrow> rat" where
  "backoff attempt = 2 ^ attempt + (1 / 10) * of_nat attempt"

text \<open>
  The loop \<^verbatim>\<open>for attempt in range(max_retries)\<close> over the attempts still to make,
  with the number of calls made, \<^verbatim>\<open>last_err\<close> and the sleeps so far; after the loop,
  \<^verbatim>\<open>raise last_err or RuntimeError("Deep Research request failed")\<close>.
\<close>

fun retry_loop ::
  "(nat \<Rightarrow> call_outcome) \<Rightarrow> nat list \<Rightarrow> nat \<Rightarrow> nat \<Rightarrow> exn option \<Rightarrow> rat list \<Rightarrow> call_trace"
where
  "retry_loop api [] tried n last_err sl =
     \<lparr>outcome = Inl (case last_err of
                       Some e \<Rightarrow> e
                     | None \<Rightarrow> RuntimeError ''Deep Research request failed''),
      attempts = tried, calls = n, slept = sl\<rparr>"
| "retry_loop api (attempt # rest) tried n last_err sl =
     (case api n of
        Returns r \<Rightarrow> \<lparr>outcome = Inr r, attempts = Suc tried, calls = n + 1, slept = sl\<rparr>
      | Throws e \<Rightarrow>
          if is_type_error e then
            (case api (n + 1) of
               Returns r \<Rightarrow> \<lparr>outcome = Inr r, attempts = Suc tried, calls = n + 2, slept = sl\<rparr>
             | Throws e2 \<Rightarrow>
                 retry_loop api rest (Suc tried) (n + 2) (Some e2) (sl @ [backoff attempt]))
          else retry_loop api rest (Suc tried) (n + 1) (Some e) (sl @ [backoff attempt]))"

definition call_deep_research :: "(nat \<Rightarrow> call_outcome) \<Rightarrow> call_trace" where
  "call_deep_research api = retry_loop api [0 ..< max_retries] 0 0 None []"

text \<open>
  One attempt in the words of the specification, to compare the loop with: the external
  call that asks for structured output and, when the library rejects that with a
  \<^verbatim>\<open>TypeError\<close>, the call without it. The second argument is the number of calls made
  before; the value is what the attempt gives and the number of calls it makes.
\<close>

definition one_attempt :: "(nat \<Rightarrow> call_outcome) \<Rightarrow> nat \<Rightarrow> (exn + string option) \<times> nat" where
  "one_attempt srv n =
     (case srv n of
        Returns r \<Rightarrow> (Inr r, 1)
      | Throws e \<Rightarrow>
          if is_type_error e then
            (case srv (n + 1) of Returns r \<Rightarrow> (Inr r, 2) | Throws e2 \<Rightarrow> (Inl e2, 2))
          else (Inl e, 1))"

section \<open>\<^verbatim>\<open>run_deep_research\<close>\<close>

text \<open>The character U+2026.\<close>

definition ELLIPSIS :: string where
  "ELLIPSIS = [CHR 0xE2, CHR 0x80, CHR 0xA6]"

text \<open>\<^verbatim>\<open>(text[:300] + " \<dots>") if text and len(text) > 300 else (text or "")\<close>.\<close>

definition preview :: "string \<Rightarrow> string" where
  "preview text = (if py_len text > 300 then py_take 300 text @ '' '' @ ELLIPSIS else text)"

text \<open>\<^verbatim>\<open>data.setdefault(key, default)\<close> for the four keys, when \<^verbatim>\<open>data\<close> is a dict.\<close>

definition setdefault :: "string \<Rightarrow> json \<Rightarrow> (string \<times> json) list \<Rightarrow> (string \<times> json) list" where
  "setdefault k v kvs = (case dict_get kvs k of None \<Rightarrow> kvs @ [(k, v)] | Some _ \<Rightarrow> kvs)"

definition normalize_missing :: "json \<Rightarrow> json" where
  "normalize_missing data =
     (case data of
        JObj kvs \<Rightarrow>
          JObj (setdefault ''sources'' (JArr [])
                 (setdefault ''risks'' (JStr [])
                   (setdefault ''rationales'' (JArr [])
                     (setdefault ''parlay'' (JArr []) kvs))))
      | _ \<Rightarrow> data)"

text \<open>
  The result is the pair \<^verbatim>\<open>(ParlayResult | None, error_message | None)\<close>. The
  arguments \<^verbatim>\<open>sport\<close>, \<^verbatim>\<open>legs\<close>, \<^verbatim>\<open>date_iso\<close>, \<^verbatim>\<open>region\<close> and \<^verbatim>\<open>constraints\<close> reach the
  prompt only, and the replies of the API are an argument here.
\<close>

definition run_deep_research ::
  "py_runtime \<Rightarrow> (nat \<Rightarrow> call_outcome) \<Rightarrow> string \<Rightarrow> parlay_result option \<times> string option"
where
  "run_deep_research rt api user_query =
     (if py_strip user_query = [] then
        (None, Some ''Please specify what you want researched (teams, props, angles).'')
      else
        (case outcome (call_deep_research api) of
           Inl e \<Rightarrow> (None, Some (''Deep Research request failed: '' @ exn_text e))
         | Inr None \<Rightarrow> (None, Some ''Empty response from the research model.'')
         | Inr (Some text) \<Rightarrow>
             (case extract_json_from_text text of
                None \<Rightarrow>
                  (None, Some (''Model did not return valid JSON. Preview: '' @ FENCE
                               @ preview text @ FENCE))
              | Some data0 \<Rightarrow>
                  (let data = normalize_missing data0
                   in case model_validate data of
                        Some parsed \<Rightarrow> (Some parsed, None)
                      | None \<Rightarrow>
                          (case salvage rt data of
                             Some rough \<Rightarrow> (Some rough, None)
                           | None \<Rightarrow>
                               (None, Some (''Model output failed validation: ''
                                            @ validation_error_text rt data @ [NEWLINE]
                                            @ ''Preview: '' @ FENCE @ preview text @ FENCE)))))))"

section \<open>\<^verbatim>\<open>normalize_date\<close> of utils/sportsdata.py\<close>

text \<open>
  The first two arguments are what the clock gives:
  \<^verbatim>\<open>datetime.now(ET).strftime("%Y-%m-%d")\<close> and the same for
  \<^verbatim>\<open>datetime.now(ET) + timedelta(days=1)\<close>. The test \<^verbatim>\<open>not date_str\<close> holds for
  \<^verbatim>\<open>None\<close> and for the empty string.
\<close>

definition normalize_date :: "string \<Rightarrow> string \<Rightarrow> string option \<Rightarrow> string" where
  "normalize_date today tomorrow date_str =
     (case date_str of
        None \<Rightarrow> today
      | Some d \<Rightarrow>
          if d = [] \<or> py_lower d = ''today'' then today
          else if py_lower d \<in> set [''tomorrow'', ''tmr'', ''tommorow'', ''tomorow''] then tomorrow
          else d)"

section \<open>The command \<^verbatim>\<open>Parlay.parlay\<close> of cogs/parlay.py\<close>

text \<open>The command is \<open>parlay_cmd\<close> here: \<open>parlay\<close> is the field of the result.\<close>

text \<open>
  What the command shows is the list of the messages it sends or edits, in order. Of a
  status embed the model keeps the status word, the colour and the symbol before the
  word (the timer and the timestamps are clock readings and are left out); of a result
  embed whether it is the error embed or the result embed, and its content.
\<close>

datatype colour = Yellow | Green | Red

datatype spin = Frame nat | GreenDot | RedDot

record status_embed =
  shown_job :: string
  shown_status :: string
  shown_colour :: colour
  shown_spin :: spin

definition SPINNER_LEN :: nat where
  "SPINNER_LEN = 12"

definition active_status :: "string \<Rightarrow> bool" where
  "active_status st = (st \<in> set [''Running'', ''Waiting'', ''Processing''])"

definition make_status_embed :: "string \<Rightarrow> string \<Rightarrow> nat \<Rightarrow> status_embed" where
  "make_status_embed jid st spinner_idx =
     \<lparr>shown_job = jid,
      shown_status = st,
      shown_colour = (if active_status st then Yellow
                      else if st = ''Complete'' then Green else Red),
      shown_spin = (if active_status st then Frame (spinner_idx mod SPINNER_LEN)
                    else if st = ''Complete'' then GreenDot else RedDot)\<rparr>"

datatype result_embed = ErrorEmbed string | ResultEmbed parlay_result

text \<open>\<^verbatim>\<open>_result_embed(title, result, err)\<close>: \<^verbatim>\<open>if err\<close> holds for a string that is
  not empty; \<open>None\<close> is the \<^verbatim>\<open>AssertionError\<close> of \<^verbatim>\<open>assert result is not None\<close>.\<close>

definition err_set :: "string option \<Rightarrow> bool" where
  "err_set err = (case err of None \<Rightarrow> False | Some e \<Rightarrow> e \<noteq> [])"

definition make_result_embed :: "parlay_result option \<Rightarrow> string option \<Rightarrow> result_embed option" where
  "make_result_embed result err =
     (if err_set err then Some (ErrorEmbed (the err))
      else (case result of None \<Rightarrow> None | Some r \<Rightarrow> Some (ResultEmbed r)))"

datatype reply = AccessDenied | DailyLimitReached int

text \<open>The keyword arguments the worker \<^verbatim>\<open>run_deep_research\<close> is started with.\<close>

record worker_args =
  arg_user_query :: string
  arg_sport :: string
  arg_legs :: int
  arg_date_iso :: string
  arg_region :: "string option"
  arg_constraints :: "string option"

datatype event =
    Reply reply
  | Defer
  | Status status_embed
  | StartWorker worker_args
  | CancelWorker
  | CancelHeartbeat
  | SendDM result_embed
  | Followup result_embed
  | PermissionNotice
  | Crash

record request =
  is_admin :: bool
  has_role :: bool
  author_id :: int
  sport :: string
  legs :: int
  query :: string
  date :: "string option"
  region :: "string option"
  constraints :: "string option"
  deliver :: string

text \<open>
  What the command reads from outside while it runs: the clock's date (today and
  tomorrow in Eastern time), the job id drawn from \<^verbatim>\<open>uuid4\<close>, whether
  \<^verbatim>\<open>asyncio.wait_for\<close> raised \<^verbatim>\<open>TimeoutError\<close>, how many rounds of the heartbeat loop
  ran, the replies of the research API, and whether the direct message and the follow-up
  message could be sent. The other calls of the front end are taken to succeed.
\<close>

record world =
  clock_today :: string
  clock_tomorrow :: string
  new_job_id :: string
  deadline_fired :: bool
  ticks :: nat
  api :: "nat \<Rightarrow> call_outcome"
  dm_ok :: bool
  followup_ok :: bool

definition TIMEOUT_MESSAGE :: string where
  "TIMEOUT_MESSAGE =
     ''Timed out waiting for research (took too long). Try narrowing the query or choosing fewer legs.''"

text \<open>\<^verbatim>\<open>SPORT_ALIASES.get(sport.lower(), sport.lower())\<close>; the choices of
  \<^verbatim>\<open>sport\<close> are words of ASCII letters and digits.\<close>

definition sport_key_of :: "string \<Rightarrow> string" where
  "sport_key_of s = (if py_lower s = ''ufc'' then ''mma'' else py_lower s)"

text \<open>The statuses the heartbeat loop shows in its rounds \<open>1, \<dots>, n\<close>; the spinner index
  is 1 when the loop starts.\<close>

definition heartbeats :: "string \<Rightarrow> nat \<Rightarrow> event list" where
  "heartbeats jid n = map (\<lambda>k. Status (make_status_embed jid ''Running'' (1 + k))) [1 ..< Suc n]"

text \<open>How a result embed is delivered once the final status is known.\<close>

definition deliver_timeout :: "world \<Rightarrow> request \<Rightarrow> status_embed \<Rightarrow> result_embed \<Rightarrow> event list" where
  "deliver_timeout w rq done_status emb =
     (if deliver rq = ''channel'' then [Status done_status, Followup emb]
      else [Status done_status, SendDM emb] @ (if dm_ok w then [] else [Followup emb]))"

definition deliver_final :: "world \<Rightarrow> request \<Rightarrow> status_embed \<Rightarrow> result_embed \<Rightarrow> event list" where
  "deliver_final w rq done_status emb =
     (if deliver rq = ''dm'' then
        [SendDM emb, Status done_status] @ (if dm_ok w then [] else [Followup emb])
      else
        [Status done_status, Followup emb] @ (if followup_ok w then [] else [PermissionNotice]))"

definition parlay_cmd :: "py_runtime \<Rightarrow> world \<Rightarrow> request \<Rightarrow> ledger \<Rightarrow> ledger \<times> event list" where
  "parlay_cmd rt w rq db =
     (if \<not> (is_admin rq \<or> has_role rq) then (db, [Reply AccessDenied])
      else
        (let (remaining, today) = remaining_today (clock_today w) (author_id rq) db
         in if remaining \<le> 0 then (db, [Reply (DailyLimitReached DAILY_MAX_PARLAYS)])
            else
              (let sport_key = sport_key_of (sport rq);
                   jid = new_job_id w;
                   date_iso = normalize_date (clock_today w) (clock_tomorrow w) (date rq);
                   db1 = create_pending_job jid (author_id rq) today db;
                   started = [Defer,
                              Status (make_status_embed jid ''Waiting'' 0),
                              Status (make_status_embed jid ''Waiting'' 1),
                              StartWorker \<lparr>arg_user_query = query rq, arg_sport = sport_key,
                                arg_legs = legs rq, arg_date_iso = date_iso,
                                arg_region = region rq, arg_constraints = constraints rq\<rparr>]
                             @ heartbeats jid (ticks w);
                   spinner_idx = 1 + ticks w
               in if deadline_fired w then
                    (set_job_status jid Failed db1,
                     started @ [CancelWorker]
                       @ deliver_timeout w rq (make_status_embed jid ''Failed'' spinner_idx)
                           (ErrorEmbed TIMEOUT_MESSAGE)
                       @ [CancelHeartbeat])
                  else
                    (let (result, err) = run_deep_research rt (api w) (query rq);
                         shown = started @ [CancelHeartbeat,
                                   Status (make_status_embed jid ''Processing'' (spinner_idx + 1))];
                         db2 = set_job_status jid (if err_set err then Failed else Success) db1;
                         done_status = make_status_embed jid
                                         (if \<not> err_set err then ''Complete'' else ''Failed'')
                                         (spinner_idx + 1)
                     in case make_result_embed result err of
                          None \<Rightarrow> (db2, shown @ [Crash])
                        | Some emb \<Rightarrow> (db2, shown @ deliver_final w rq done_status emb)))))"

text \<open>A status is terminal when it is none of the three the embed draws as running.\<close>

definition terminal_statuses :: "event list \<Rightarrow> string list" where
  "terminal_statuses evs =
     concat (map (\<lambda>e. case e of
                         Status se \<Rightarrow> (if active_status (shown_status se) then [] else [shown_status se])
                       | _ \<Rightarrow> []) evs)"

section \<open>The ledger: what Remaining counts\<close>

lemma count_success_via_success_rows:
  "count_success_today uid d db
   = int (length (filter (\<lambda>r. user_id r = uid \<and> et_date r = d)
                         (filter (\<lambda>r. status r = Success) db)))"
  by (induction db) (auto simp: count_success_today_def)

lemma count_success_cong:
  assumes "filter (\<lambda>r. status r = Success) db = filter (\<lambda>r. status r = Success) db'"
  shows "count_success_today uid d db = count_success_today uid d db'"
  by (simp only: count_success_via_success_rows assms)

lemma success_rows_reserve_fail:
  assumes "\<not> (\<exists>r \<in> set db. job_id r = jid \<and> status r = Success)"
  shows "filter (\<lambda>r. status r = Success)
           (set_job_status jid Failed (create_pending_job jid uid d db))
         = filter (\<lambda>r. status r = Success) db"
  using assms by (induction db) (simp_all add: set_job_status_def create_pending_job_def)

lemma count_after_reserve_fail:
  "count_success_today uid d (set_job_status jid Failed (create_pending_job jid who d' db))
   = int (length (filter (\<lambda>r. job_id r \<noteq> jid)
                         (filter (\<lambda>r. user_id r = uid \<and> et_date r = d \<and> status r = Success) db)))"
  by (induction db) (simp_all add: count_success_today_def set_job_status_def create_pending_job_def)

lemma remaining_not_reduced:
  "fst (remaining_today d uid db)
   \<le> fst (remaining_today d uid (set_job_status jid Failed (create_pending_job jid who d' db)))"
proof -
  have "length (filter (\<lambda>r. job_id r \<noteq> jid)
                 (filter (\<lambda>r. user_id r = uid \<and> et_date r = d \<and> status r = Success) db))
        \<le> length (filter (\<lambda>r. user_id r = uid \<and> et_date r = d \<and> status r = Success) db)"
    by (rule length_filter_le)
  then have "count_success_today uid d (set_job_status jid Failed (create_pending_job jid who d' db))
        \<le> count_success_today uid d db"
    unfolding count_after_reserve_fail by (simp add: count_success_today_def)
  then show ?thesis by (simp add: remaining_today_def Let_def)
qed

text \<open>
  Claim C1 as stated fails where the Reserve replaces a record: \<^verbatim>\<open>INSERT OR REPLACE\<close>
  with a job id that names a Success row removes that row, so after Finalize(Failed)
  the user has one success less and Remaining has risen from 2 to 3.
\<close>

theorem reserve_replaces_success_row:
  "remaining_today ''2025-03-01'' 7
     [\<lparr>job_id = ''AAAA0001'', user_id = 7, et_date = ''2025-03-01'', status = Success\<rparr>]
     = (2, ''2025-03-01'')
   \<and> remaining_today ''2025-03-01'' 7
       (set_job_status ''AAAA0001'' Failed (create_pending_job ''AAAA0001'' 7 ''2025-03-01''
         [\<lparr>job_id = ''AAAA0001'', user_id = 7, et_date = ''2025-03-01'', status = Success\<rparr>]))
     = (3, ''2025-03-01'')"
  by (simp add: remaining_today_def count_success_today_def DAILY_MAX_PARLAYS_def
      set_job_status_def create_pending_job_def)

text \<open>
  Claim C1, amended. For every user and reference day, Remaining is
  \<open>max 0 (DAILY_MAX - n)\<close> where \<open>n\<close> counts the rows of that user and day whose status
  is Success, and the day returned is the one asked for. Two ledgers with the same
  Success rows give the same Remaining, whatever their pending and failed rows are. A
  Reserve followed by Finalize(Failed) leaves Remaining as it was for every user,
  whenever the job id does not name a Success row already (in particular when the Reserve
  creates a row, the job id being new), and it never lowers Remaining.
\<close>

theorem remaining_counts_only_success:
  "fst (remaining_today today uid db)
     = max 0 (DAILY_MAX_PARLAYS
              - int (length (filter (\<lambda>r. user_id r = uid \<and> et_date r = today
                                          \<and> status r = Success) db)))
   \<and> snd (remaining_today today uid db) = today
   \<and> (filter (\<lambda>r. status r = Success) db = filter (\<lambda>r. status r = Success) db'
        \<longrightarrow> remaining_today today uid db = remaining_today today uid db')
   \<and> (\<not> (\<exists>r \<in> set db. job_id r = jid \<and> status r = Success)
        \<longrightarrow> remaining_today today uid
              (set_job_status jid Failed (create_pending_job jid who today db))
            = remaining_today today uid db)
   \<and> fst (remaining_today today uid db)
       \<le> fst (remaining_today today uid
                (set_job_status jid Failed (create_pending_job jid who today db)))"
proof -
  have a: "remaining_today today uid x = remaining_today today uid y"
    if "filter (\<lambda>r. status r = Success) x = filter (\<lambda>r. status r = Success) y" for x y
    using count_success_cong [OF that, of uid today] by (simp add: remaining_today_def)
  have b: "remaining_today today uid
             (set_job_status jid Failed (create_pending_job jid who today db))
            = remaining_today today uid db"
    if "\<not> (\<exists>r \<in> set db. job_id r = jid \<and> status r = Success)"
    by (rule a) (rule success_rows_reserve_fail [OF that])
  have c: "fst (remaining_today today uid db)
     = max 0 (DAILY_MAX_PARLAYS
              - int (length (filter (\<lambda>r. user_id r = uid \<and> et_date r = today
                                          \<and> status r = Success) db)))"
    by (simp add: remaining_today_def count_success_today_def Let_def)
  have d: "snd (remaining_today today uid db) = today"
    by (simp add: remaining_today_def Let_def)
  note e = remaining_not_reduced [of today uid db jid who today]
  from a b c d e show ?thesis by blast
qed

text \<open>One success, one failed and one pending job of user 7 leave 2 of 3; so does the
  success alone; so does a new job reserved and then finalized as failed.\<close>

theorem remaining_counts_only_success_witness:
  "remaining_today ''2025-03-01'' 7
     [\<lparr>job_id = ''AAAA0001'', user_id = 7, et_date = ''2025-03-01'', status = Success\<rparr>,
      \<lparr>job_id = ''AAAA0002'', user_id = 7, et_date = ''2025-03-01'', status = Failed\<rparr>,
      \<lparr>job_id = ''AAAA0003'', user_id = 7, et_date = ''2025-03-01'', status = Pending\<rparr>]
     = (2, ''2025-03-01'')
   \<and> remaining_today ''2025-03-01'' 7
     [\<lparr>job_id = ''AAAA0001'', user_id = 7, et_date = ''2025-03-01'', status = Success\<rparr>]
     = (2, ''2025-03-01'')
   \<and> remaining_today ''2025-03-01'' 7
       (set_job_status ''AAAA0004'' Failed (create_pending_job ''AAAA0004'' 7 ''2025-03-01''
         [\<lparr>job_id = ''AAAA0001'', user_id = 7, et_date = ''2025-03-01'', status = Success\<rparr>]))
     = (2, ''2025-03-01'')"
  using remaining_counts_only_success [of "''2025-03-01''" 7
     "[\<lparr>job_id = ''AAAA0001'', user_id = 7, et_date = ''2025-03-01'', status = Success\<rparr>,
      \<lparr>job_id = ''AAAA0002'', user_id = 7, et_date = ''2025-03-01'', status = Failed\<rparr>,
      \<lparr>job_id = ''AAAA0003'', user_id = 7, et_date = ''2025-03-01'', status = Pending\<rparr>]"
     "[\<lparr>job_id = ''AAAA0001'', user_id = 7, et_date = ''2025-03-01'', status = Success\<rparr>]"
     "''AAAA0004''" 7]
    remaining_counts_only_success [of "''2025-03-01''" 7
     "[\<lparr>job_id = ''AAAA0001'', user_id = 7, et_date = ''2025-03-01'', status = Success\<rparr>]"
     "[]" "''AAAA0004''" 7]
  by (simp add: remaining_today_def count_success_today_def DAILY_MAX_PARLAYS_def)

section \<open>The ledger: Finalize\<close>

text \<open>
  Claim C5 as stated fails: \<open>set_job_status\<close> is an unconditional update that returns
  nothing, so a job finalized as Success and then as Failed ends as Failed, and one
  finalized as Failed and then as Success ends as Success; neither is detected.
\<close>

theorem finalize_conflict_overwrites:
  "set_job_status ''AAAA0001'' Failed
     (set_job_status ''AAAA0001'' Success
        [\<lparr>job_id = ''AAAA0001'', user_id = 7, et_date = ''2025-03-01'', status = Pending\<rparr>])
   = [\<lparr>job_id = ''AAAA0001'', user_id = 7, et_date = ''2025-03-01'', status = Failed\<rparr>]
   \<and> set_job_status ''AAAA0001'' Success
     (set_job_status ''AAAA0001'' Failed
        [\<lparr>job_id = ''AAAA0001'', user_id = 7, et_date = ''2025-03-01'', status = Pending\<rparr>])
   = [\<lparr>job_id = ''AAAA0001'', user_id = 7, et_date = ''2025-03-01'', status = Success\<rparr>]"
  by (simp add: set_job_status_def)

text \<open>
  Claim C5, amended. Finalize sets the status of the rows with that job id to the outcome
  given, whatever it was, and touches nothing else: repeated with the same outcome it
  changes nothing more, and of two finalizes with different outcomes the later one wins.
\<close>

theorem set_job_status_last_write_wins:
  "set_job_status jid st (set_job_status jid st db) = set_job_status jid st db
   \<and> set_job_status jid st2 (set_job_status jid st1 db) = set_job_status jid st2 db
   \<and> map job_id (set_job_status jid st db) = map job_id db
   \<and> map status (filter (\<lambda>r. job_id r = jid) (set_job_status jid st db))
       = replicate (length (filter (\<lambda>r. job_id r = jid) db)) st
   \<and> filter (\<lambda>r. job_id r \<noteq> jid) (set_job_status jid st db)
       = filter (\<lambda>r. job_id r \<noteq> jid) db"
  by (induction db) (simp_all add: set_job_status_def)

section \<open>\<^verbatim>\<open>normalize_date\<close>\<close>

text \<open>
  Claim C10 as stated fails at the empty string: it is a string other than
  \<^verbatim>\<open>"today"\<close> and the aliases of tomorrow, and it is not returned unchanged, but
  replaced by today's date.
\<close>

theorem normalize_date_empty_string_is_today:
  "normalize_date ''2025-03-01'' ''2025-03-02'' (Some '''') = ''2025-03-01''
   \<and> normalize_date ''2025-03-01'' ''2025-03-02'' (Some '''') \<noteq> ''''"
  by (simp add: normalize_date_def)

text \<open>
  Claim C10, amended. \<open>normalize_date\<close> returns today's date for \<^verbatim>\<open>None\<close>, for the empty
  string and for a string that is \<^verbatim>\<open>"today"\<close> in lower case, tomorrow's date for a
  string that is one of the four aliases in lower case, and every other string unchanged,
  whatever its format.
\<close>

theorem normalize_date_cases:
  "normalize_date today tomorrow None = today
   \<and> normalize_date today tomorrow (Some []) = today
   \<and> (py_lower d = ''today'' \<longrightarrow> normalize_date today tomorrow (Some d) = today)
   \<and> (py_lower d \<in> {''tomorrow'', ''tmr'', ''tommorow'', ''tomorow''}
        \<longrightarrow> normalize_date today tomorrow (Some d) = tomorrow)
   \<and> (d \<noteq> [] \<and> py_lower d \<notin> {''today'', ''tomorrow'', ''tmr'', ''tommorow'', ''tomorow''}
        \<longrightarrow> normalize_date today tomorrow (Some d) = d)"
  by (auto simp: normalize_date_def py_lower_def)

theorem normalize_date_cases_witness:
  "normalize_date ''2025-03-01'' ''2025-03-02'' (Some ''TODAY'') = ''2025-03-01''
   \<and> normalize_date ''2025-03-01'' ''2025-03-02'' (Some ''tmr'') = ''2025-03-02''
   \<and> normalize_date ''2025-03-01'' ''2025-03-02'' (Some ''not-a-date'') = ''not-a-date''"
proof -
  have a: "py_lower ''TODAY'' = ''today''" by code_simp
  have b: "py_lower ''tmr'' = ''tmr''" by code_simp
  have c: "py_lower ''not-a-date'' = ''not-a-date''" by code_simp
  show ?thesis
    using normalize_date_cases [of "''2025-03-01''" "''2025-03-02''" "''TODAY''"]
          normalize_date_cases [of "''2025-03-01''" "''2025-03-02''" "''tmr''"]
          normalize_date_cases [of "''2025-03-01''" "''2025-03-02''" "''not-a-date''"]
    by (simp add: a b c)
qed

section \<open>The worker: retries and the shape of the result\<close>

lemma upt3: "[0 ..< max_retries] = [0, 1, 2]"
  by (simp add: max_retries_def upt_rec)

lemma retry_loop_inv:
  assumes "lerr = None \<or> (\<exists>e. lerr = Some e \<and> 0 < n \<and> srv (n - 1) = Throws e)"
  shows "tried \<le> attempts (retry_loop srv as tried n lerr sl)
     \<and> attempts (retry_loop srv as tried n lerr sl) \<le> tried + length as
     \<and> calls (retry_loop srv as tried n lerr sl)
         \<le> n + 2 * (attempts (retry_loop srv as tried n lerr sl) - tried)
     \<and> (case outcome (retry_loop srv as tried n lerr sl) of
           Inr r \<Rightarrow>
             0 < calls (retry_loop srv as tried n lerr sl)
             \<and> srv (calls (retry_loop srv as tried n lerr sl) - 1) = Returns r
             \<and> tried < attempts (retry_loop srv as tried n lerr sl)
             \<and> slept (retry_loop srv as tried n lerr sl)
                 = sl @ map backoff (take (attempts (retry_loop srv as tried n lerr sl) - tried - 1) as)
         | Inl e \<Rightarrow>
             attempts (retry_loop srv as tried n lerr sl) = tried + length as
             \<and> slept (retry_loop srv as tried n lerr sl) = sl @ map backoff as
             \<and> ((as \<noteq> [] \<or> lerr \<noteq> None)
                  \<longrightarrow> 0 < calls (retry_loop srv as tried n lerr sl)
                      \<and> srv (calls (retry_loop srv as tried n lerr sl) - 1) = Throws e))"
  using assms
proof (induction as arbitrary: tried n lerr sl)
  case Nil
  then show ?case by auto
next
  case (Cons a as)
  have tk: "take (m - Suc tried) (a # as) = a # take (m - Suc (Suc tried)) as"
    if "Suc tried < m" for m
  proof -
    from that have "m - Suc tried = Suc (m - Suc (Suc tried))" by arith
    then show ?thesis by simp
  qed
  show ?case
  proof (cases "srv n")
    case (Returns r)
    then show ?thesis by simp
  next
    case (Throws e)
    show ?thesis
    proof (cases "is_type_error e")
      case False
      have pre: "Some e = None \<or> (\<exists>e'. Some e = Some e' \<and> 0 < n + 1 \<and> srv (n + 1 - 1) = Throws e')"
        using Throws by simp
      from Cons.IH [OF pre, of "Suc tried" "sl @ [backoff a]"] Throws False
      show ?thesis by (auto split: sum.splits simp: tk)
    next
      case True
      show ?thesis
      proof (cases "srv (n + 1)")
        case (Returns r)
        with Throws True show ?thesis by simp
      next
        case T2: (Throws e2)
        have pre: "Some e2 = None \<or> (\<exists>e'. Some e2 = Some e' \<and> 0 < n + 2 \<and> srv (n + 2 - 1) = Throws e')"
          using T2 by simp
        from Cons.IH [OF pre, of "Suc tried" "sl @ [backoff a]"] Throws True T2
        show ?thesis by (auto split: sum.splits simp: tk)
      qed
    qed
  qed
qed


lemma retry_loop_step:
  "retry_loop srv (a # as) tried n lerr sl =
     (case one_attempt srv n of
        (Inr r, c) \<Rightarrow> \<lparr>outcome = Inr r, attempts = Suc tried, calls = n + c, slept = sl\<rparr>
      | (Inl e, c) \<Rightarrow> retry_loop srv as (Suc tried) (n + c) (Some e) (sl @ [backoff a]))"
  by (simp add: one_attempt_def split: call_outcome.split)

lemma backoff_values: "backoff 0 = 1" "backoff 1 = 21 / 10" "backoff 2 = 21 / 5"
  by (simp_all add: backoff_def)

lemma call_deep_research_unrolled:
  "call_deep_research srv =
     (case one_attempt srv 0 of
        (Inr r, c1) \<Rightarrow> \<lparr>outcome = Inr r, attempts = 1, calls = c1, slept = []\<rparr>
      | (Inl e1, c1) \<Rightarrow>
          (case one_attempt srv c1 of
             (Inr r, c2) \<Rightarrow> \<lparr>outcome = Inr r, attempts = 2, calls = c1 + c2, slept = [1]\<rparr>
           | (Inl e2, c2) \<Rightarrow>
               (case one_attempt srv (c1 + c2) of
                  (Inr r, c3) \<Rightarrow>
                    \<lparr>outcome = Inr r, attempts = 3, calls = c1 + c2 + c3,
                     slept = [1, 21 / 10]\<rparr>
                | (Inl e3, c3) \<Rightarrow>
                    \<lparr>outcome = Inl e3, attempts = 3, calls = c1 + c2 + c3,
                     slept = [1, 21 / 10, 21 / 5]\<rparr>)))"
  unfolding call_deep_research_def upt3 retry_loop_step
  by (simp add: backoff_def split: prod.split sum.split)

text \<open>
  Claim C8 as stated fails in the number of external calls: an attempt whose first call
  raises \<^verbatim>\<open>TypeError\<close> calls the API a second time, so when every call raises
  \<^verbatim>\<open>TypeError\<close> the three attempts make six calls.
\<close>

theorem three_attempts_make_six_calls:
  "attempts (call_deep_research (\<lambda>n. Throws (TypeError ''unexpected keyword argument''))) = 3
   \<and> calls (call_deep_research (\<lambda>n. Throws (TypeError ''unexpected keyword argument''))) = 6"
  by (simp add: call_deep_research_def upt3 is_type_error_def)

text \<open>
  Claim C8, amended. The call makes its attempts in order, each attempt being the call
  for structured output and, when that raises \<^verbatim>\<open>TypeError\<close>, one call without it: the
  first attempt that returns a response ends the run with that response, and a failed
  attempt is followed by a sleep and, unless it was the third, by the next attempt. So
  there are at most 3 attempts and at most 6 calls. The sleep after the failed attempt
  number \<open>k\<close> (from 0) is \<open>2 ^ k + k / 10\<close> seconds: 1 and 2.1 seconds lie between
  consecutive attempts, and 4.2 seconds follow the third. When all three attempts fail,
  the exception raised is the one of the last call, and \<open>run_deep_research\<close> returns the
  one message that wraps its text.
\<close>

theorem call_deep_research_retries:
  "call_deep_research srv =
     (case one_attempt srv 0 of
        (Inr r, c1) \<Rightarrow> \<lparr>outcome = Inr r, attempts = 1, calls = c1, slept = []\<rparr>
      | (Inl e1, c1) \<Rightarrow>
          (case one_attempt srv c1 of
             (Inr r, c2) \<Rightarrow> \<lparr>outcome = Inr r, attempts = 2, calls = c1 + c2, slept = [1]\<rparr>
           | (Inl e2, c2) \<Rightarrow>
               (case one_attempt srv (c1 + c2) of
                  (Inr r, c3) \<Rightarrow>
                    \<lparr>outcome = Inr r, attempts = 3, calls = c1 + c2 + c3,
                     slept = [1, 21 / 10]\<rparr>
                | (Inl e3, c3) \<Rightarrow>
                    \<lparr>outcome = Inl e3, attempts = 3, calls = c1 + c2 + c3,
                     slept = [1, 21 / 10, 21 / 5]\<rparr>)))
   \<and> attempts (call_deep_research srv) \<le> 3
   \<and> calls (call_deep_research srv) \<le> 2 * attempts (call_deep_research srv)
   \<and> calls (call_deep_research srv) \<le> 6
   \<and> (case outcome (call_deep_research srv) of
         Inr r \<Rightarrow>
           srv (calls (call_deep_research srv) - 1) = Returns r
           \<and> slept (call_deep_research srv)
               = map (\<lambda>k. 2 ^ k + of_nat k / 10) [0 ..< attempts (call_deep_research srv) - 1]
       | Inl e \<Rightarrow>
           srv (calls (call_deep_research srv) - 1) = Throws e
           \<and> attempts (call_deep_research srv) = 3
           \<and> slept (call_deep_research srv) = [1, 21 / 10, 21 / 5]
           \<and> (py_strip q = [] \<or> run_deep_research rt srv q
                 = (None, Some (''Deep Research request failed: '' @ exn_text e))))"
proof -
  define tr where "tr = call_deep_research srv"
  have tr: "tr = retry_loop srv [0, 1, 2] 0 0 None []"
    by (simp add: tr_def call_deep_research_def upt3)
  have inv: "attempts tr \<le> 3 \<and> calls tr \<le> 2 * attempts tr
     \<and> (case outcome tr of
           Inr r \<Rightarrow> 0 < calls tr \<and> srv (calls tr - 1) = Returns r \<and> 0 < attempts tr
                    \<and> slept tr = map backoff (take (attempts tr - 1) [0, 1, 2])
         | Inl e \<Rightarrow> attempts tr = 3 \<and> slept tr = map backoff [0, 1, 2]
                    \<and> 0 < calls tr \<and> srv (calls tr - 1) = Throws e)"
    using retry_loop_inv [of None 0 srv 0 "[0, 1, 2]" "[]"] unfolding tr
    by (auto split: sum.splits)
  have six: "calls tr \<le> 6"
  proof -
    from inv have "attempts tr \<le> 3" "calls tr \<le> 2 * attempts tr" by blast+
    then show ?thesis by arith
  qed
  have tk: "map backoff (take k [0, 1, 2]) = map (\<lambda>k. 2 ^ k + of_nat k / 10) [0 ..< k]"
    if "k \<le> 2" for k
  proof -
    from that have "k = 0 \<or> k = 1 \<or> k = 2" by arith
    then show ?thesis by (auto simp: backoff_def upt_rec)
  qed
  have bo: "map backoff [0, 1, 2] = [1, 21 / 10, 21 / 5]"
    by (simp add: backoff_def)
  have rest: "attempts tr \<le> 3 \<and> calls tr \<le> 2 * attempts tr \<and> calls tr \<le> 6
   \<and> (case outcome tr of
         Inr r \<Rightarrow>
           srv (calls tr - 1) = Returns r
           \<and> slept tr = map (\<lambda>k. 2 ^ k + of_nat k / 10) [0 ..< attempts tr - 1]
       | Inl e \<Rightarrow>
           srv (calls tr - 1) = Throws e \<and> attempts tr = 3
           \<and> slept tr = [1, 21 / 10, 21 / 5]
           \<and> (py_strip q = [] \<or> run_deep_research rt srv q
                 = (None, Some (''Deep Research request failed: '' @ exn_text e))))"
  proof (cases "outcome tr")
    case (Inr r)
    from inv have "attempts tr \<le> 3" by blast
    then have "attempts tr - 1 \<le> 2" by arith
    from tk [OF this] inv six Inr show ?thesis by simp
  next
    case (Inl e)
    then have "py_strip q = [] \<or> run_deep_research rt srv q
                 = (None, Some (''Deep Research request failed: '' @ exn_text e))"
      by (simp add: run_deep_research_def tr_def)
    with inv six Inl bo show ?thesis by simp
  qed
  show ?thesis
    using rest call_deep_research_unrolled [of srv] unfolding tr_def by blast
qed

text \<open>An API that raises twice and then answers: the third attempt returns the answer
  after the sleeps 1 and 2.1. An API that always raises: three attempts, the sleeps 1,
  2.1 and 4.2, and one message with the text of the error.\<close>

theorem call_deep_research_retries_witness:
  "call_deep_research (\<lambda>n. if n < 2 then Throws (OtherError ''busy'') else Returns (Some ''{}''))
     = \<lparr>outcome = Inr (Some ''{}''), attempts = 3, calls = 3, slept = [1, 21 / 10]\<rparr>
   \<and> call_deep_research (\<lambda>n. Throws (OtherError ''boom''))
     = \<lparr>outcome = Inl (OtherError ''boom''), attempts = 3, calls = 3,
        slept = [1, 21 / 10, 21 / 5]\<rparr>
   \<and> run_deep_research plain_runtime (\<lambda>n. Throws (OtherError ''boom'')) ''q''
       = (None, Some ''Deep Research request failed: boom'')"
proof -
  have q: "py_strip ''q'' \<noteq> []" by code_simp
  have a: "one_attempt (\<lambda>n. if n < 2 then Throws (OtherError ''busy'') else Returns (Some ''{}'')) k
            = (if k < 2 then (Inl (OtherError ''busy''), 1) else (Inr (Some ''{}''), 1))" for k
    by (simp add: one_attempt_def is_type_error_def)
  have b: "one_attempt (\<lambda>n. Throws (OtherError ''boom'')) k = (Inl (OtherError ''boom''), 1)" for k
    by (simp add: one_attempt_def is_type_error_def)
  have 1: "call_deep_research (\<lambda>n. if n < 2 then Throws (OtherError ''busy'') else Returns (Some ''{}''))
     = \<lparr>outcome = Inr (Some ''{}''), attempts = 3, calls = 3, slept = [1, 21 / 10]\<rparr>"
    using call_deep_research_retries
      [of "\<lambda>n. if n < 2 then Throws (OtherError ''busy'') else Returns (Some ''{}'')" "''q''"
          plain_runtime]
    by (simp add: a)
  have 2: "call_deep_research (\<lambda>n. Throws (OtherError ''boom''))
     = \<lparr>outcome = Inl (OtherError ''boom''), attempts = 3, calls = 3,
        slept = [1, 21 / 10, 21 / 5]\<rparr>"
    using call_deep_research_retries [of "\<lambda>n. Throws (OtherError ''boom'')" "''q''" plain_runtime]
    by (simp add: b)
  have 3: "run_deep_research plain_runtime (\<lambda>n. Throws (OtherError ''boom'')) ''q''
       = (None, Some ''Deep Research request failed: boom'')"
    using call_deep_research_retries [of "\<lambda>n. Throws (OtherError ''boom'')" "''q''" plain_runtime] q
    by (simp add: 2 exn_text_def)
  from 1 2 3 show ?thesis by blast
qed

text \<open>
  Claim C9. \<open>run_deep_research\<close> returns either a result and no error, or no result and
  an error message that is not empty.
\<close>

theorem run_deep_research_result_xor_error:
  "(\<exists>r. run_deep_research rt srv q = (Some r, None))
   \<or> (\<exists>e. 0 < length e \<and> run_deep_research rt srv q = (None, Some e))"
  by (simp add: run_deep_research_def Let_def split: sum.split option.split)

section \<open>Extraction and validation\<close>

lemma q_not_blank: "py_strip ''q'' \<noteq> []"
  by code_simp

lemma fence_search_none: "\<not> contains_fence t \<Longrightarrow> fence_search t = None"
  by (induction t) auto

lemma remove_trailing_commas_id: "\<not> comma_before_bracket t \<Longrightarrow> remove_trailing_commas t = t"
  by (induction t) auto

lemma ws_rest_brace: "ws_rest (CHR ''{'' # x) = None"
  by (simp add: ws_rest_def WHITESPACE_def starts_with_def)

lemma ends_with_last:
  assumes "ends_with w s" and "w \<noteq> []"
  shows "last w = last s"
proof -
  from assms have d: "drop (length s - length w) s = w" by (simp add: ends_with_def)
  with assms(2) have "length s - length w < length s" by (metis drop_all not_le)
  then have "last (drop (length s - length w) s) = last s" by (rule last_drop)
  with d show ?thesis by simp
qed

lemma ws_rest_end_brace: "ws_rest_end (x @ [CHR ''}'']) = None"
proof -
  have "\<not> ends_with w (x @ [CHR ''}''])" if "w \<in> set WHITESPACE" for w
  proof
    assume e: "ends_with w (x @ [CHR ''}''])"
    from that have "w \<noteq> []" by (rule whitespace_not_empty)
    from ends_with_last [OF e this] have "last w = CHR ''}''" by simp
    with that show False by (auto simp: WHITESPACE_def)
  qed
  then have "filter (\<lambda>w. ends_with w (x @ [CHR ''}''])) WHITESPACE = []"
    by (simp add: filter_empty_conv)
  then show ?thesis by (simp add: ws_rest_end_def)
qed

lemma py_strip_block: "py_strip (CHR ''{'' # m @ [CHR ''}'']) = CHR ''{'' # m @ [CHR ''}'']"
proof -
  have a: "drop_ws (CHR ''{'' # m @ [CHR ''}'']) = CHR ''{'' # m @ [CHR ''}'']"
    by (simp add: drop_ws.simps [of "CHR ''{'' # m @ [CHR ''}'']"] ws_rest_brace)
  have b: "drop_ws_end ((CHR ''{'' # m) @ [CHR ''}'']) = (CHR ''{'' # m) @ [CHR ''}'']"
    by (simp only: drop_ws_end.simps [of "(CHR ''{'' # m) @ [CHR ''}'']"] ws_rest_end_brace
        option.case)
  show ?thesis using a b by (simp add: py_strip_def)
qed

lemma isolate_block_block: "isolate_block (CHR ''{'' # m @ [CHR ''}'']) = CHR ''{'' # m @ [CHR ''}'']"
  by (simp add: isolate_block_def py_find_def py_rfind_def py_slice_def Let_def)

lemma conf_ok_normal: "c \<in> set [''low'', ''medium'', ''high''] \<Longrightarrow> conf_ok c = Some c"
proof -
  have "conf_ok ''low'' = Some ''low''" "conf_ok ''medium'' = Some ''medium''"
       "conf_ok ''high'' = Some ''high''"
    by code_simp+
  then show "c \<in> set [''low'', ''medium'', ''high''] \<Longrightarrow> conf_ok c = Some c"
    by auto
qed

lemma sequence_map_Some:
  "(\<And>x. x \<in> set xs \<Longrightarrow> f (g x) = Some x) \<Longrightarrow> sequence (map f (map g xs)) = Some xs"
  by (induction xs) auto

lemma validate_str_list_strs: "validate_str_list (JArr (map JStr xs)) = Some xs"
  unfolding validate_str_list_def
  using sequence_map_Some [of xs validate_str JStr] by (simp add: validate_str_def)

lemma validate_leg_matches:
  "leg_matches j l \<Longrightarrow> normal_confidence l \<Longrightarrow> validate_leg j = Some l"
  by (cases j)
     (auto simp: leg_matches_def validate_leg_def validate_str_def validate_str_list_strs
        conf_ok_normal normal_confidence_def split: option.splits)

lemma validate_legs_match:
  "list_all2 leg_matches js ls \<Longrightarrow> list_all normal_confidence ls
   \<Longrightarrow> sequence (map validate_leg js) = Some ls"
  by (induction js ls rule: list_all2_induct) (simp_all add: validate_leg_matches)

lemma model_validate_matches:
  assumes "result_matches j r" and "list_all normal_confidence (parlay r)"
  shows "model_validate j = Some r"
proof -
  from assms(1) obtain kvs where j: "j = JObj kvs"
    by (cases j) (simp_all add: result_matches_def)
  have p: "(case dict_get kvs ''parlay'' of None \<Rightarrow> Some [] | Some x \<Rightarrow> validate_leg_list x)
           = Some (parlay r)"
    using assms validate_legs_match [of _ "parlay r"]
    by (auto simp: j result_matches_def validate_leg_list_def split: option.splits json.splits)
  have ra: "(case dict_get kvs ''rationales'' of None \<Rightarrow> Some [] | Some x \<Rightarrow> validate_str_list x)
           = Some (rationales r)"
    using assms(1) by (auto simp: j result_matches_def validate_str_list_strs split: option.splits)
  have ri: "(case dict_get kvs ''risks'' of None \<Rightarrow> Some [] | Some x \<Rightarrow> validate_str x)
           = Some (risks r)"
    using assms(1) by (auto simp: j result_matches_def validate_str_def split: option.splits)
  have so: "(case dict_get kvs ''sources'' of None \<Rightarrow> Some [] | Some x \<Rightarrow> validate_str_list x)
           = Some (sources r)"
    using assms(1) by (auto simp: j result_matches_def validate_str_list_strs split: option.splits)
  show ?thesis
    by (simp add: j model_validate_def p ra ri so)
qed

lemma dict_get_setdefault:
  "dict_get (setdefault k v kvs) k'
   = (if k' = k then Some (case dict_get kvs k of None \<Rightarrow> v | Some x \<Rightarrow> x) else dict_get kvs k')"
  by (auto simp: setdefault_def dict_get_def map_add_def split: option.splits)

lemma result_matches_normalize:
  "result_matches j r \<Longrightarrow> result_matches (normalize_missing j) r"
  by (cases j)
     (auto simp: result_matches_def normalize_missing_def dict_get_setdefault
        split: option.splits json.splits)

lemma repair_id:
  "\<not> comma_before_bracket t \<Longrightarrow> (SQ \<in> set t \<longrightarrow> DQ \<in> set (py_take 80 t)) \<Longrightarrow> repair t = t"
  by (auto simp: repair_def remove_trailing_commas_id Let_def)

lemma extract_clean_block:
  assumes "t = CHR ''{'' # m @ [CHR ''}'']" "\<not> contains_fence t" "\<not> comma_before_bracket t"
    "SQ \<in> set t \<longrightarrow> DQ \<in> set (py_take 80 t)" "json_loads t = Some (JObj kvs)"
  shows "extract_json_from_text t = Some (JObj kvs)"
proof -
  have s: "py_strip t = t" and i: "isolate_block t = t"
    using assms(1) py_strip_block isolate_block_block by simp_all
  have r: "repair t = t" using assms(3,4) by (rule repair_id)
  show ?thesis
    by (simp add: extract_json_from_text_def Let_def s i r fence_search_none [OF assms(2)] assms(5))
qed

lemma returns_at_once: "outcome (call_deep_research (\<lambda>n. Returns (Some t))) = Inr (Some t)"
  by (simp add: call_deep_research_def max_retries_def upt_rec)

text \<open>
  Claim C4 fails on the code. For the array-only response of the claim the text holds
  both a brace pair and a bracket pair, so the extraction keeps the span from the first
  \<^verbatim>\<open>{\<close> to the last \<^verbatim>\<open>}\<close>, which is the leg itself; it parses to a dict, the branch
  that wraps a top-level array is not reached, and validation ignores the leg's keys: the
  result has no leg.
\<close>

theorem array_only_response_loses_its_leg:
  "extract_json_from_text ''[{\"market\":\"moneyline\",\"selection\":\"A -3\",\"confidence\":\"HIGH\"}]''
     = Some (JObj [(''market'', JStr ''moneyline''), (''selection'', JStr ''A -3''),
                   (''confidence'', JStr ''HIGH'')])
   \<and> run_deep_research rt
       (\<lambda>n. Returns (Some ''[{\"market\":\"moneyline\",\"selection\":\"A -3\",\"confidence\":\"HIGH\"}]''))
       ''q''
     = (Some \<lparr>parlay = [], rationales = [], risks = [], sources = []\<rparr>, None)"
  by code_simp

text \<open>
  Claim C6 as stated fails: the text below is the JSON of a result that satisfies the
  schema, and its risks hold a comma before a closing bracket inside the string; the
  repair of trailing commas removes that comma, so the result that comes back differs
  from the input in \<open>risks\<close>.
\<close>

theorem repair_changes_valid_json:
  "json_loads ''{\"parlay\":[{\"market\":\"total\",\"selection\":\"O 8.5\",\"book_examples\":[],\"confidence\":\"low\"}],\"rationales\":[],\"risks\":\"see [1,2, ]\",\"sources\":[]}''
     = Some (result_object
         \<lparr>parlay = [\<lparr>market = ''total'', selection = ''O 8.5'', book_examples = [],
                     confidence = ''low''\<rparr>],
          rationales = [], risks = ''see [1,2, ]'', sources = []\<rparr>)
   \<and> model_validate (result_object
         \<lparr>parlay = [\<lparr>market = ''total'', selection = ''O 8.5'', book_examples = [],
                     confidence = ''low''\<rparr>],
          rationales = [], risks = ''see [1,2, ]'', sources = []\<rparr>)
     = Some \<lparr>parlay = [\<lparr>market = ''total'', selection = ''O 8.5'', book_examples = [],
                         confidence = ''low''\<rparr>],
             rationales = [], risks = ''see [1,2, ]'', sources = []\<rparr>
   \<and> Option.bind (extract_json_from_text ''{\"parlay\":[{\"market\":\"total\",\"selection\":\"O 8.5\",\"book_examples\":[],\"confidence\":\"low\"}],\"rationales\":[],\"risks\":\"see [1,2, ]\",\"sources\":[]}'')
        model_validate
     = Some \<lparr>parlay = [\<lparr>market = ''total'', selection = ''O 8.5'', book_examples = [],
                         confidence = ''low''\<rparr>],
             rationales = [], risks = ''see [1,2]'', sources = []\<rparr>
   \<and> ''see [1,2]'' \<noteq> ''see [1,2, ]''"
  by code_simp

text \<open>
  Claim C6, amended. Let the text be one block from \<^verbatim>\<open>{\<close> to \<^verbatim>\<open>}\<close> with nothing
  around it, within the limits of the decoder, that holds no code fence and no comma
  before a closing bracket (inside a string or outside), and no single quote unless a
  double quote stands among its first 80 characters. If \<^verbatim>\<open>json.loads\<close> reads it as an
  object that satisfies the schema for a result whose confidences are among low, medium
  and high (the keys in any order, a key with a default present or not), then the
  extraction returns that object, validation returns the result field for field, and so
  does \<open>run_deep_research\<close>.
\<close>

theorem extract_validate_round_trip:
  "t = CHR ''{'' # m @ [CHR ''}''] \<and> \<not> contains_fence t \<and> \<not> comma_before_bracket t
   \<and> (SQ \<in> set t \<longrightarrow> DQ \<in> set (py_take 80 t))
   \<and> within_decoder_limits rt t
   \<and> json_loads t = Some j \<and> result_matches j r \<and> list_all normal_confidence (parlay r)
   \<longrightarrow> extract_json_from_text t = Some j
       \<and> Option.bind (extract_json_from_text t) model_validate = Some r
       \<and> (py_strip q = [] \<or> run_deep_research rt (\<lambda>n. Returns (Some t)) q = (Some r, None))"
proof (intro impI, elim conjE)
  assume h: "t = CHR ''{'' # m @ [CHR ''}'']" "\<not> contains_fence t" "\<not> comma_before_bracket t"
    "SQ \<in> set t \<longrightarrow> DQ \<in> set (py_take 80 t)" "json_loads t = Some j"
    "result_matches j r" "list_all normal_confidence (parlay r)"
  from h(6) obtain kvs where j: "j = JObj kvs"
    by (cases j) (simp_all add: result_matches_def)
  have e: "extract_json_from_text t = Some j"
    using extract_clean_block [OF h(1-4), of kvs] h(5) by (simp add: j)
  have v: "model_validate j = Some r"
    using h(6,7) by (rule model_validate_matches)
  have v': "model_validate (normalize_missing j) = Some r"
    using result_matches_normalize [OF h(6)] h(7) by (rule model_validate_matches)
  have "run_deep_research rt (\<lambda>n. Returns (Some t)) q = (Some r, None)" if "py_strip q \<noteq> []"
    using that by (simp add: run_deep_research_def returns_at_once e v')
  with e v show "extract_json_from_text t = Some j
       \<and> Option.bind (extract_json_from_text t) model_validate = Some r
       \<and> (py_strip q = [] \<or> run_deep_research rt (\<lambda>n. Returns (Some t)) q = (Some r, None))"
    by auto
qed

text \<open>A text with the keys in another order and a leg without \<^verbatim>\<open>book_examples\<close>.\<close>

theorem extract_validate_round_trip_witness:
  "\<not> contains_fence ''{\"risks\":\"rain\",\"parlay\":[{\"confidence\":\"low\",\"market\":\"total\",\"selection\":\"O 8.5\"}],\"sources\":[],\"rationales\":[\"pace\"]}''
   \<and> \<not> comma_before_bracket ''{\"risks\":\"rain\",\"parlay\":[{\"confidence\":\"low\",\"market\":\"total\",\"selection\":\"O 8.5\"}],\"sources\":[],\"rationales\":[\"pace\"]}''
   \<and> within_decoder_limits plain_runtime ''{\"risks\":\"rain\",\"parlay\":[{\"confidence\":\"low\",\"market\":\"total\",\"selection\":\"O 8.5\"}],\"sources\":[],\"rationales\":[\"pace\"]}''
   \<and> run_deep_research plain_runtime
     (\<lambda>n. Returns (Some ''{\"risks\":\"rain\",\"parlay\":[{\"confidence\":\"low\",\"market\":\"total\",\"selection\":\"O 8.5\"}],\"sources\":[],\"rationales\":[\"pace\"]}''))
     ''q''
   = (Some \<lparr>parlay = [\<lparr>market = ''total'', selection = ''O 8.5'', book_examples = [],
                         confidence = ''low''\<rparr>],
             rationales = [''pace''], risks = ''rain'', sources = []\<rparr>, None)"
proof -
  let ?m = "''\"risks\":\"rain\",\"parlay\":[{\"confidence\":\"low\",\"market\":\"total\",\"selection\":\"O 8.5\"}],\"sources\":[],\"rationales\":[\"pace\"]''"
  let ?t = "''{\"risks\":\"rain\",\"parlay\":[{\"confidence\":\"low\",\"market\":\"total\",\"selection\":\"O 8.5\"}],\"sources\":[],\"rationales\":[\"pace\"]}''"
  let ?j = "JObj [(''risks'', JStr ''rain''),
                  (''parlay'', JArr [JObj [(''confidence'', JStr ''low''), (''market'', JStr ''total''),
                                           (''selection'', JStr ''O 8.5'')]]),
                  (''sources'', JArr []), (''rationales'', JArr [JStr ''pace''])]"
  let ?r = "\<lparr>parlay = [\<lparr>market = ''total'', selection = ''O 8.5'', book_examples = [],
                         confidence = ''low''\<rparr>],
             rationales = [''pace''], risks = ''rain'', sources = []\<rparr>"
  have 1: "?t = CHR ''{'' # ?m @ [CHR ''}'']" by simp
  have 2: "\<not> contains_fence ?t" by code_simp
  have 3: "\<not> comma_before_bracket ?t" by code_simp
  have 4: "SQ \<in> set ?t \<longrightarrow> DQ \<in> set (py_take 80 ?t)" by code_simp
  have 5: "json_loads ?t = Some ?j" by code_simp
  have 6: "list_all normal_confidence (parlay ?r)" by code_simp
  have 7: "py_strip ''q'' \<noteq> []" by code_simp
  have 8: "within_decoder_limits plain_runtime ?t" by code_simp
  have 9: "result_matches ?j ?r" by code_simp
  show ?thesis
    using extract_validate_round_trip [of ?t ?m plain_runtime ?j ?r "''q''"] 1 2 3 4 5 6 7 8 9
    by blast
qed

section \<open>The salvage path\<close>


lemma sequence_map_Some_all:
  "sequence (map f xs) = Some ys
   \<Longrightarrow> list_all (\<lambda>x. \<exists>y. f x = Some y) xs \<and> ys = map (\<lambda>x. the (f x)) xs"
  by (induction xs arbitrary: ys) (auto split: option.splits)


lemma get_or_list:
  "dict_get kvs k = Some (JArr xs) \<Longrightarrow> iterate (get_or rt kvs k (JArr [])) = Some xs"
  by (auto simp: get_or_def truthy_def iterate_def)








section \<open>The command: admission\<close>

text \<open>
  Claim C7. When the caller may use the command and Remaining is 0, the command answers
  with the daily-limit message and nothing else: the ledger is as before (no row is
  created) and no status is shown.
\<close>

theorem quota_exhausted_rejects:
  "(is_admin rq \<or> has_role rq)
   \<and> fst (remaining_today (clock_today w) (author_id rq) db) = 0
   \<longrightarrow> parlay_cmd rt w rq db = (db, [Reply (DailyLimitReached DAILY_MAX_PARLAYS)])"
  by (simp add: parlay_cmd_def Let_def split: prod.split)

text \<open>The fourth attempt of user 7 on a day with three successes.\<close>

theorem quota_exhausted_rejects_witness:
  "fst (remaining_today ''2025-03-01'' 7
     [\<lparr>job_id = ''AAAA0001'', user_id = 7, et_date = ''2025-03-01'', status = Success\<rparr>,
      \<lparr>job_id = ''AAAA0002'', user_id = 7, et_date = ''2025-03-01'', status = Success\<rparr>,
      \<lparr>job_id = ''AAAA0003'', user_id = 7, et_date = ''2025-03-01'', status = Success\<rparr>]) = 0
   \<and> parlay_cmd plain_runtime
       \<lparr>clock_today = ''2025-03-01'', clock_tomorrow = ''2025-03-02'',
        new_job_id = ''AAAA0004'', deadline_fired = False, ticks = 0,
        api = (\<lambda>n. Returns None), dm_ok = True, followup_ok = True\<rparr>
       \<lparr>is_admin = False, has_role = True, author_id = 7, sport = ''nba'', legs = 3,
        query = ''q'', date = None, region = None, constraints = None, deliver = ''dm''\<rparr>
       [\<lparr>job_id = ''AAAA0001'', user_id = 7, et_date = ''2025-03-01'', status = Success\<rparr>,
        \<lparr>job_id = ''AAAA0002'', user_id = 7, et_date = ''2025-03-01'', status = Success\<rparr>,
        \<lparr>job_id = ''AAAA0003'', user_id = 7, et_date = ''2025-03-01'', status = Success\<rparr>]
     = ([\<lparr>job_id = ''AAAA0001'', user_id = 7, et_date = ''2025-03-01'', status = Success\<rparr>,
         \<lparr>job_id = ''AAAA0002'', user_id = 7, et_date = ''2025-03-01'', status = Success\<rparr>,
         \<lparr>job_id = ''AAAA0003'', user_id = 7, et_date = ''2025-03-01'', status = Success\<rparr>],
        [Reply (DailyLimitReached 3)])"
proof -
  have r: "fst (remaining_today ''2025-03-01'' 7
     [\<lparr>job_id = ''AAAA0001'', user_id = 7, et_date = ''2025-03-01'', status = Success\<rparr>,
      \<lparr>job_id = ''AAAA0002'', user_id = 7, et_date = ''2025-03-01'', status = Success\<rparr>,
      \<lparr>job_id = ''AAAA0003'', user_id = 7, et_date = ''2025-03-01'', status = Success\<rparr>]) = 0"
    by (simp add: remaining_today_def count_success_today_def DAILY_MAX_PARLAYS_def)
  show ?thesis
    using r quota_exhausted_rejects [of
       "\<lparr>is_admin = False, has_role = True, author_id = 7, sport = ''nba'', legs = 3,
        query = ''q'', date = None, region = None, constraints = None, deliver = ''dm''\<rparr>"
       "\<lparr>clock_today = ''2025-03-01'', clock_tomorrow = ''2025-03-02'',
        new_job_id = ''AAAA0004'', deadline_fired = False, ticks = 0,
        api = (\<lambda>n. Returns None), dm_ok = True, followup_ok = True\<rparr>"
       "[\<lparr>job_id = ''AAAA0001'', user_id = 7, et_date = ''2025-03-01'', status = Success\<rparr>,
        \<lparr>job_id = ''AAAA0002'', user_id = 7, et_date = ''2025-03-01'', status = Success\<rparr>,
        \<lparr>job_id = ''AAAA0003'', user_id = 7, et_date = ''2025-03-01'', status = Success\<rparr>]"
       plain_runtime]
    by (simp add: DAILY_MAX_PARLAYS_def)
qed

section \<open>The command: the deadline\<close>

lemma terminal_statuses_append:
  "terminal_statuses (xs @ ys) = terminal_statuses xs @ terminal_statuses ys"
  by (simp add: terminal_statuses_def)

lemma active_words: "active_status ''Waiting''" "active_status ''Running''"
  "active_status ''Processing''" "\<not> active_status ''Failed''" "\<not> active_status ''Complete''"
  by (simp_all add: active_status_def)

lemma terminal_statuses_heartbeats: "terminal_statuses (heartbeats jid n) = []"
  by (simp add: terminal_statuses_def heartbeats_def make_status_embed_def active_words)

lemma remaining_after_reserve_fail:
  assumes "\<not> (\<exists>r \<in> set db. job_id r = jid \<and> status r = Success)"
  shows "remaining_today d uid (set_job_status jid Failed (create_pending_job jid who d' db))
         = remaining_today d uid db"
  using count_success_cong [OF success_rows_reserve_fail [OF assms, of who d'], of uid d]
  by (simp add: remaining_today_def)

lemma job_row_after_reserve_fail:
  "map status (filter (\<lambda>r. job_id r = jid)
      (set_job_status jid st (create_pending_job jid who d db))) = [st]"
  by (induction db) (simp_all add: set_job_status_def create_pending_job_def)

lemma timeout_message_distinct: "snd (run_deep_research rt srv q) \<noteq> Some TIMEOUT_MESSAGE"
  by (simp add: run_deep_research_def Let_def TIMEOUT_MESSAGE_def split: sum.split option.split)

lemma timeout_run:
  assumes "is_admin rq \<or> has_role rq"
    and "0 < fst (remaining_today (clock_today w) (author_id rq) db)"
    and "deadline_fired w"
  shows "parlay_cmd rt w rq db =
     (set_job_status (new_job_id w) Failed
        (create_pending_job (new_job_id w) (author_id rq) (clock_today w) db),
      [Defer,
       Status (make_status_embed (new_job_id w) ''Waiting'' 0),
       Status (make_status_embed (new_job_id w) ''Waiting'' 1),
       StartWorker \<lparr>arg_user_query = query rq, arg_sport = sport_key_of (sport rq),
          arg_legs = legs rq,
          arg_date_iso = normalize_date (clock_today w) (clock_tomorrow w) (date rq),
          arg_region = region rq, arg_constraints = constraints rq\<rparr>]
      @ heartbeats (new_job_id w) (ticks w)
      @ [CancelWorker]
      @ deliver_timeout w rq (make_status_embed (new_job_id w) ''Failed'' (1 + ticks w))
          (ErrorEmbed TIMEOUT_MESSAGE)
      @ [CancelHeartbeat])"
proof -
  obtain k where r: "remaining_today (clock_today w) (author_id rq) db = (k, clock_today w)"
    by (simp add: remaining_today_def Let_def)
  with assms(2) have "\<not> k \<le> 0" by simp
  with assms(1,3) r show ?thesis
    by (simp add: parlay_cmd_def Let_def)
qed

text \<open>
  Claim C2 as stated fails in the phase of the terminal status: when the deadline fires,
  the one terminal status the command shows has the word \<^verbatim>\<open>Failed\<close>, the same as after
  a worker error; the code has no status \<^verbatim>\<open>TimedOut\<close>.
\<close>

theorem timeout_status_is_not_timed_out:
  "terminal_statuses (snd (parlay_cmd plain_runtime
       \<lparr>clock_today = ''2025-03-01'', clock_tomorrow = ''2025-03-02'',
        new_job_id = ''AAAA0004'', deadline_fired = True, ticks = 8,
        api = (\<lambda>n. Returns None), dm_ok = True, followup_ok = True\<rparr>
       \<lparr>is_admin = True, has_role = False, author_id = 7, sport = ''nba'', legs = 3,
        query = ''q'', date = None, region = None, constraints = None, deliver = ''dm''\<rparr>
       [])) = [''Failed'']
   \<and> ''Failed'' \<noteq> ''TimedOut''"
  by code_simp

text \<open>
  Claim C2, amended. When an admitted job's deadline fires, the command cancels the
  worker, sets the job's row to Failed, shows exactly one terminal status, whose word is
  \<^verbatim>\<open>Failed\<close>, and delivers the error embed with the timeout message, a text that no
  error of \<open>run_deep_research\<close> equals. Remaining is never lower after the run than
  before it, for any user and day, and it is the same whenever the job id did not name a
  Success row already (a new job id never does).
\<close>

theorem timeout_is_shown_as_failed:
  "(is_admin rq \<or> has_role rq)
   \<and> 0 < fst (remaining_today (clock_today w) (author_id rq) db)
   \<and> deadline_fired w
   \<longrightarrow> CancelWorker \<in> set (snd (parlay_cmd rt w rq db))
     \<and> fst (parlay_cmd rt w rq db)
         = set_job_status (new_job_id w) Failed
             (create_pending_job (new_job_id w) (author_id rq) (clock_today w) db)
     \<and> map status (filter (\<lambda>r. job_id r = new_job_id w) (fst (parlay_cmd rt w rq db))) = [Failed]
     \<and> ((\<exists>r \<in> set db. job_id r = new_job_id w \<and> status r = Success)
          \<or> remaining_today d uid (fst (parlay_cmd rt w rq db)) = remaining_today d uid db)
     \<and> fst (remaining_today d uid db) \<le> fst (remaining_today d uid (fst (parlay_cmd rt w rq db)))
     \<and> terminal_statuses (snd (parlay_cmd rt w rq db)) = [''Failed'']
     \<and> (SendDM (ErrorEmbed TIMEOUT_MESSAGE) \<in> set (snd (parlay_cmd rt w rq db))
          \<or> Followup (ErrorEmbed TIMEOUT_MESSAGE) \<in> set (snd (parlay_cmd rt w rq db)))
     \<and> snd (run_deep_research rt' srv q) \<noteq> Some TIMEOUT_MESSAGE"
proof (intro impI, elim conjE)
  assume h: "is_admin rq \<or> has_role rq"
    "0 < fst (remaining_today (clock_today w) (author_id rq) db)" "deadline_fired w"
  note run = timeout_run [OF h, of rt]
  have a: "CancelWorker \<in> set (snd (parlay_cmd rt w rq db))"
    by (simp add: run)
  have b: "fst (parlay_cmd rt w rq db)
         = set_job_status (new_job_id w) Failed
             (create_pending_job (new_job_id w) (author_id rq) (clock_today w) db)"
    by (simp add: run)
  have c: "map status (filter (\<lambda>r. job_id r = new_job_id w) (fst (parlay_cmd rt w rq db))) = [Failed]"
    unfolding b by (rule job_row_after_reserve_fail)
  have d: "(\<exists>r \<in> set db. job_id r = new_job_id w \<and> status r = Success)
          \<or> remaining_today d uid (fst (parlay_cmd rt w rq db)) = remaining_today d uid db"
    unfolding b using remaining_after_reserve_fail [of db "new_job_id w" d uid] by blast
  have d': "fst (remaining_today d uid db) \<le> fst (remaining_today d uid (fst (parlay_cmd rt w rq db)))"
    unfolding b by (rule remaining_not_reduced)
  have e: "terminal_statuses (snd (parlay_cmd rt w rq db)) = [''Failed'']"
    unfolding run snd_conv terminal_statuses_append terminal_statuses_heartbeats
    by (simp add: terminal_statuses_def deliver_timeout_def make_status_embed_def active_words)
  have f: "SendDM (ErrorEmbed TIMEOUT_MESSAGE) \<in> set (snd (parlay_cmd rt w rq db))
          \<or> Followup (ErrorEmbed TIMEOUT_MESSAGE) \<in> set (snd (parlay_cmd rt w rq db))"
    by (simp add: run deliver_timeout_def)
  from a b c d d' e f timeout_message_distinct [of rt' srv q]
  show "CancelWorker \<in> set (snd (parlay_cmd rt w rq db))
     \<and> fst (parlay_cmd rt w rq db)
         = set_job_status (new_job_id w) Failed
             (create_pending_job (new_job_id w) (author_id rq) (clock_today w) db)
     \<and> map status (filter (\<lambda>r. job_id r = new_job_id w) (fst (parlay_cmd rt w rq db))) = [Failed]
     \<and> ((\<exists>r \<in> set db. job_id r = new_job_id w \<and> status r = Success)
          \<or> remaining_today d uid (fst (parlay_cmd rt w rq db)) = remaining_today d uid db)
     \<and> fst (remaining_today d uid db) \<le> fst (remaining_today d uid (fst (parlay_cmd rt w rq db)))
     \<and> terminal_statuses (snd (parlay_cmd rt w rq db)) = [''Failed'']
     \<and> (SendDM (ErrorEmbed TIMEOUT_MESSAGE) \<in> set (snd (parlay_cmd rt w rq db))
          \<or> Followup (ErrorEmbed TIMEOUT_MESSAGE) \<in> set (snd (parlay_cmd rt w rq db)))
     \<and> snd (run_deep_research rt' srv q) \<noteq> Some TIMEOUT_MESSAGE"
    by blast
qed

text \<open>A run in a channel with one heartbeat, for a user with one success today.\<close>

theorem timeout_is_shown_as_failed_witness:
  "parlay_cmd plain_runtime
       \<lparr>clock_today = ''2025-03-01'', clock_tomorrow = ''2025-03-02'',
        new_job_id = ''AAAA0004'', deadline_fired = True, ticks = 1,
        api = (\<lambda>n. Returns None), dm_ok = True, followup_ok = True\<rparr>
       \<lparr>is_admin = True, has_role = False, author_id = 7, sport = ''nba'', legs = 3,
        query = ''q'', date = None, region = None, constraints = None, deliver = ''channel''\<rparr>
       [\<lparr>job_id = ''AAAA0001'', user_id = 7, et_date = ''2025-03-01'', status = Success\<rparr>]
   = ([\<lparr>job_id = ''AAAA0001'', user_id = 7, et_date = ''2025-03-01'', status = Success\<rparr>,
       \<lparr>job_id = ''AAAA0004'', user_id = 7, et_date = ''2025-03-01'', status = Failed\<rparr>],
      [Defer,
       Status \<lparr>shown_job = ''AAAA0004'', shown_status = ''Waiting'', shown_colour = Yellow, shown_spin = Frame 0\<rparr>,
       Status \<lparr>shown_job = ''AAAA0004'', shown_status = ''Waiting'', shown_colour = Yellow, shown_spin = Frame 1\<rparr>,
       StartWorker \<lparr>arg_user_query = ''q'', arg_sport = ''nba'', arg_legs = 3,
          arg_date_iso = ''2025-03-01'', arg_region = None, arg_constraints = None\<rparr>,
       Status \<lparr>shown_job = ''AAAA0004'', shown_status = ''Running'', shown_colour = Yellow, shown_spin = Frame 2\<rparr>,
       CancelWorker,
       Status \<lparr>shown_job = ''AAAA0004'', shown_status = ''Failed'', shown_colour = Red, shown_spin = RedDot\<rparr>,
       Followup (ErrorEmbed TIMEOUT_MESSAGE),
       CancelHeartbeat])
   \<and> remaining_today ''2025-03-01'' 7
       [\<lparr>job_id = ''AAAA0001'', user_id = 7, et_date = ''2025-03-01'', status = Success\<rparr>,
        \<lparr>job_id = ''AAAA0004'', user_id = 7, et_date = ''2025-03-01'', status = Failed\<rparr>]
     = remaining_today ''2025-03-01'' 7
       [\<lparr>job_id = ''AAAA0001'', user_id = 7, et_date = ''2025-03-01'', status = Success\<rparr>]"
proof -
  let ?w = "\<lparr>clock_today = ''2025-03-01'', clock_tomorrow = ''2025-03-02'',
        new_job_id = ''AAAA0004'', deadline_fired = True, ticks = 1,
        api = (\<lambda>n. Returns None), dm_ok = True, followup_ok = True\<rparr>"
  let ?rq = "\<lparr>is_admin = True, has_role = False, author_id = 7, sport = ''nba'', legs = 3,
        query = ''q'', date = None, region = None, constraints = None, deliver = ''channel''\<rparr>"
  let ?db = "[\<lparr>job_id = ''AAAA0001'', user_id = 7, et_date = ''2025-03-01'', status = Success\<rparr>]"
  have run: "parlay_cmd plain_runtime ?w ?rq ?db
   = ([\<lparr>job_id = ''AAAA0001'', user_id = 7, et_date = ''2025-03-01'', status = Success\<rparr>,
       \<lparr>job_id = ''AAAA0004'', user_id = 7, et_date = ''2025-03-01'', status = Failed\<rparr>],
      [Defer,
       Status \<lparr>shown_job = ''AAAA0004'', shown_status = ''Waiting'', shown_colour = Yellow, shown_spin = Frame 0\<rparr>,
       Status \<lparr>shown_job = ''AAAA0004'', shown_status = ''Waiting'', shown_colour = Yellow, shown_spin = Frame 1\<rparr>,
       StartWorker \<lparr>arg_user_query = ''q'', arg_sport = ''nba'', arg_legs = 3,
          arg_date_iso = ''2025-03-01'', arg_region = None, arg_constraints = None\<rparr>,
       Status \<lparr>shown_job = ''AAAA0004'', shown_status = ''Running'', shown_colour = Yellow, shown_spin = Frame 2\<rparr>,
       CancelWorker,
       Status \<lparr>shown_job = ''AAAA0004'', shown_status = ''Failed'', shown_colour = Red, shown_spin = RedDot\<rparr>,
       Followup (ErrorEmbed TIMEOUT_MESSAGE),
       CancelHeartbeat])"
    by code_simp
  have h: "is_admin ?rq \<or> has_role ?rq" "deadline_fired ?w"
    "0 < fst (remaining_today (clock_today ?w) (author_id ?rq) ?db)"
    "\<not> (\<exists>r \<in> set ?db. job_id r = new_job_id ?w \<and> status r = Success)"
    by (simp_all add: remaining_today_def count_success_today_def DAILY_MAX_PARLAYS_def)
  have "remaining_today ''2025-03-01'' 7 (fst (parlay_cmd plain_runtime ?w ?rq ?db))
        = remaining_today ''2025-03-01'' 7 ?db"
    using timeout_is_shown_as_failed [of ?rq ?w ?db plain_runtime "''2025-03-01''" 7] h
    by blast
  then have rem: "remaining_today ''2025-03-01'' 7
       [\<lparr>job_id = ''AAAA0001'', user_id = 7, et_date = ''2025-03-01'', status = Success\<rparr>,
        \<lparr>job_id = ''AAAA0004'', user_id = 7, et_date = ''2025-03-01'', status = Failed\<rparr>]
     = remaining_today ''2025-03-01'' 7 ?db"
    unfolding run fst_conv .
  show ?thesis
    by (intro conjI) (fact run, fact rem)
qed

end
